theory Spec2Isabelle
  imports Main
begin

section \<open>JavaScript values\<close>

text \<open>
  The configuration tree produced by the YAML parser is loosely typed, and the code
  under study (\<^verbatim>\<open>create_agents_from_yaml.mjs\<close>) reads it with property access,
  \<^verbatim>\<open>||\<close> defaulting, \<^verbatim>\<open>typeof\<close> and \<^verbatim>\<open>Set.has\<close>. The values are
  modelled as a datatype. Numbers are abstracted to integers, with NaN kept apart: the
  code only observes whether a number is truthy. A string is a list of code units below
  256. An object is its list of own properties; a parsed YAML mapping has unique keys.
\<close>

datatype jsval =
    JUndefined
  | JNull
  | JBool bool
  | JNum int
  | JNaN
  | JStr string
  | JArr "jsval list"
  | JObj "(string \<times> jsval) list"

text \<open>ToBoolean: the falsy values are undefined, null, false, 0, NaN and the empty string.\<close>

fun truthy :: "jsval \<Rightarrow> bool" where
  "truthy JUndefined = False"
| "truthy JNull = False"
| "truthy (JBool b) = b"
| "truthy (JNum n) = (n \<noteq> 0)"
| "truthy JNaN = False"
| "truthy (JStr s) = (s \<noteq> [])"
| "truthy (JArr xs) = True"
| "truthy (JObj kvs) = True"

text \<open>\<^verbatim>\<open>a || b\<close>: the left operand when it is truthy, the right one otherwise.\<close>

definition js_or :: "jsval \<Rightarrow> jsval \<Rightarrow> jsval" where
  "js_or a b = (if truthy a then a else b)"

fun typeof :: "jsval \<Rightarrow> string" where
  "typeof JUndefined = ''undefined''"
| "typeof JNull = ''object''"
| "typeof (JBool b) = ''boolean''"
| "typeof (JNum n) = ''number''"
| "typeof JNaN = ''number''"
| "typeof (JStr s) = ''string''"
| "typeof (JArr xs) = ''object''"
| "typeof (JObj kvs) = ''object''"

subsection \<open>Errors\<close>

text \<open>
  A thrown value is an error object: its class and its message. The classes are the ones
  the module names (\<^verbatim>\<open>Error\<close>, the engine's \<^verbatim>\<open>TypeError\<close>, and the two classes
  the retry policy lists), and any other class an external constructor may throw.
  \<open>AgentConstructionError\<close> is the error of an exhausted retry policy; it carries the
  agent's name and the last cause.
\<close>

datatype error_class = Error | TypeError | ConnectionError | TimeoutError | OtherError string

datatype error =
    Exn error_class string
  | AgentConstructionError jsval error

fun message :: "error \<Rightarrow> string" where
  "message (Exn c m) = m"
| "message (AgentConstructionError n e) = ''Agent construction failed: '' @ message e"

subsection \<open>Property access\<close>

text \<open>
  \<^verbatim>\<open>config.key\<close> for the keys this module reads. On an object it is the own property
  or undefined; on undefined and null the engine throws a TypeError (the message text is
  the engine's; the model fixes one); on any other value (a string, a number, a boolean,
  an array) none of the keys read here exists, so the result is undefined.
\<close>

fun read_prop :: "jsval \<Rightarrow> string \<Rightarrow> jsval" where
  "read_prop (JObj kvs) k = (case map_of kvs k of None \<Rightarrow> JUndefined | Some v \<Rightarrow> v)"
| "read_prop v k = JUndefined"

fun nullish :: "jsval \<Rightarrow> bool" where
  "nullish JUndefined = True"
| "nullish JNull = True"
| "nullish v = False"

definition get_prop :: "jsval \<Rightarrow> string \<Rightarrow> error + jsval" where
  "get_prop v k =
     (if nullish v then Inl (Exn TypeError (''Cannot read properties of '' @
        (if v = JNull then ''null'' else ''undefined'') @ '' (reading '' @ k @ '')''))
      else Inr (read_prop v k))"

subsection \<open>String.prototype.trim\<close>

text \<open>
  The white space and line terminator code units below 256: tab, line feed, vertical tab,
  form feed, carriage return, space and no-break space.
\<close>

definition is_js_whitespace :: "char \<Rightarrow> bool" where
  "is_js_whitespace c =
     (c \<in> set [CHR 0x09, CHR 0x0A, CHR 0x0B, CHR 0x0C, CHR 0x0D, CHR 0x20, CHR 0xA0])"

definition trim :: "string \<Rightarrow> string" where
  "trim s = rev (dropWhile is_js_whitespace (rev (dropWhile is_js_whitespace s)))"

section \<open>AgentConfig\<close>

text \<open>The fields the constructor of \<^verbatim>\<open>AgentConfig\<close> sets on \<^verbatim>\<open>this\<close>, in its order.\<close>

record AgentConfig =
  agentName :: jsval
  systemPrompt :: jsval
  modelName :: jsval
  maxLoops :: jsval
  autosave :: jsval
  dashboard :: jsval
  verbose :: jsval
  dynamicTemperatureEnabled :: jsval
  savedStatePath :: jsval
  userName :: jsval
  retryAttempts :: jsval
  contextLength :: jsval
  returnStepMeta :: jsval
  outputType :: jsval
  autoGeneratePrompt :: jsval
  artifactsOn :: jsval
  artifactsFileExtension :: jsval
  artifactsOutputPath :: jsval

text \<open>
  The check at the end of the constructor,
  \<^verbatim>\<open>!p || typeof p !== "string" || p.trim().length === 0\<close>, evaluated left to right;
  \<^verbatim>\<open>trim\<close> is reached on strings only.
\<close>

definition systemPrompt_rejected :: "jsval \<Rightarrow> bool" where
  "systemPrompt_rejected p =
     (if \<not> truthy p then True
      else if typeof p \<noteq> ''string'' then True
      else (case p of JStr s \<Rightarrow> length (trim s) = 0 | _ \<Rightarrow> True))"

text \<open>
  \<^verbatim>\<open>new AgentConfig(config)\<close>. The first property read throws on a nullish
  \<open>config\<close>; after it the other reads cannot throw.
\<close>

definition AgentConfig_new :: "jsval \<Rightarrow> error + AgentConfig" where
  "AgentConfig_new config =
     (case get_prop config ''agent_name'' of
        Inl e \<Rightarrow> Inl e
      | Inr an \<Rightarrow>
          (let this = \<lparr>
                 agentName = an,
                 systemPrompt = read_prop config ''system_prompt'',
                 modelName = js_or (read_prop config ''model_name'') JNull,
                 maxLoops = js_or (read_prop config ''max_loops'') (JNum 1),
                 autosave = js_or (read_prop config ''autosave'') (JBool True),
                 dashboard = js_or (read_prop config ''dashboard'') (JBool False),
                 verbose = js_or (read_prop config ''verbose'') (JBool False),
                 dynamicTemperatureEnabled =
                   js_or (read_prop config ''dynamic_temperature_enabled'') (JBool False),
                 savedStatePath = js_or (read_prop config ''saved_state_path'') JNull,
                 userName = js_or (read_prop config ''user_name'') (JStr ''default_user''),
                 retryAttempts = js_or (read_prop config ''retry_attempts'') (JNum 3),
                 contextLength = js_or (read_prop config ''context_length'') (JNum 100000),
                 returnStepMeta = js_or (read_prop config ''return_step_meta'') (JBool False),
                 outputType = js_or (read_prop config ''output_type'') (JStr ''str''),
                 autoGeneratePrompt = js_or (read_prop config ''auto_generate_prompt'') (JBool False),
                 artifactsOn = js_or (read_prop config ''artifacts_on'') (JBool False),
                 artifactsFileExtension =
                   js_or (read_prop config ''artifacts_file_extension'') (JStr ''.md''),
                 artifactsOutputPath = js_or (read_prop config ''artifacts_output_path'') (JStr '''')
               \<rparr>
           in if systemPrompt_rejected (systemPrompt this)
              then Inl (Exn Error ''System prompt must be a non-empty string'')
              else Inr this))"

section \<open>SwarmConfig\<close>

text \<open>
  The fields the constructor of \<^verbatim>\<open>SwarmConfig\<close> sets. Field names are global in a
  theory, so the fields carry the prefix \<open>sw_\<close> (\<open>sw_maxLoops\<close> is
  \<^verbatim>\<open>this.maxLoops\<close> of a SwarmConfig).
\<close>

record SwarmConfig =
  sw_name :: jsval
  sw_description :: jsval
  sw_maxLoops :: jsval
  sw_swarmType :: jsval
  sw_task :: jsval
  sw_flow :: jsval
  sw_autosave :: jsval
  sw_returnJson :: jsval
  sw_rules :: jsval

definition validTypes :: "string list" where
  "validTypes =
     [''SequentialWorkflow'', ''ConcurrentWorkflow'', ''AgentRearrange'', ''MixtureOfAgents'',
      ''auto'']"

text \<open>\<^verbatim>\<open>set.has(v)\<close> on a set of strings: true for a string that is an element only.\<close>

definition set_has :: "string list \<Rightarrow> jsval \<Rightarrow> bool" where
  "set_has xs v = (case v of JStr s \<Rightarrow> s \<in> set xs | _ \<Rightarrow> False)"

fun join :: "string \<Rightarrow> string list \<Rightarrow> string" where
  "join sep [] = ''''"
| "join sep [x] = x"
| "join sep (x # y # ys) = x @ sep @ join sep (y # ys)"

definition SwarmConfig_new :: "jsval \<Rightarrow> error + SwarmConfig" where
  "SwarmConfig_new config =
     (case get_prop config ''name'' of
        Inl e \<Rightarrow> Inl e
      | Inr n \<Rightarrow>
          (let this = \<lparr>
                 sw_name = n,
                 sw_description = read_prop config ''description'',
                 sw_maxLoops = js_or (read_prop config ''max_loops'') (JNum 1),
                 sw_swarmType = read_prop config ''swarm_type'',
                 sw_task = js_or (read_prop config ''task'') JNull,
                 sw_flow = js_or (read_prop config ''flow'') JNull,
                 sw_autosave = js_or (read_prop config ''autosave'') (JBool True),
                 sw_returnJson = js_or (read_prop config ''return_json'') (JBool False),
                 sw_rules = js_or (read_prop config ''rules'') (JStr '''')
               \<rparr>
           in if \<not> set_has validTypes (sw_swarmType this)
              then Inl (Exn Error (''Swarm type must be one of: '' @ join '', '' validTypes))
              else Inr this))"

section \<open>External collaborators\<close>

text \<open>
  The YAML parser, the file system and the classes \<^verbatim>\<open>LiteLLM\<close>, \<^verbatim>\<open>Agent\<close> and
  \<^verbatim>\<open>SwarmRouter\<close> are imported; the module only calls them. An instance is
  represented by what the module handed to its constructor; a \<^verbatim>\<open>LiteLLM\<close> or an
  \<^verbatim>\<open>Agent\<close> also by the number of earlier calls of that constructor. The options
  object of a constructor call is the list of its properties in the order of the object
  literal; the \<^verbatim>\<open>llm\<close> and \<^verbatim>\<open>agents\<close> properties, which hold instances, are
  kept beside it.
\<close>

type_synonym opts = "(string \<times> jsval) list"

datatype llm = LiteLLM nat jsval

datatype agent = Agent nat opts llm

datatype router = SwarmRouter opts "agent list"

text \<open>
  Every call the module makes to the outside is recorded, in order, whether it returns
  or throws, and so is every pause of the retry policy.
\<close>

datatype event =
    is_NewLiteLLM: NewLiteLLM jsval
  | is_NewAgent: NewAgent opts llm
  | is_Sleep: Sleep nat
  | is_NewSwarmRouter: NewSwarmRouter opts "agent list"
  | is_RunSwarm: RunSwarm router jsval

type_synonym trace = "event list"

text \<open>
  What the outside answers. A constructor returns the new instance (\<open>None\<close>) or throws
  (\<open>Some e\<close>); the answer of \<^verbatim>\<open>new LiteLLM\<close> and \<^verbatim>\<open>new Agent\<close> may change from
  one call to the next, so it depends on the number of earlier calls.
\<close>

record env =
  yaml_parse :: "string \<Rightarrow> error + jsval"
  existsSync :: "string \<Rightarrow> bool"
  readFileSync :: "string \<Rightarrow> error + string"
  LiteLLM_ctor :: "nat \<Rightarrow> jsval \<Rightarrow> error option"
  Agent_ctor :: "nat \<Rightarrow> opts \<Rightarrow> llm \<Rightarrow> error option"
  SwarmRouter_ctor :: "opts \<Rightarrow> agent list \<Rightarrow> error option"
  SwarmRouter_run :: "router \<Rightarrow> jsval \<Rightarrow> error + jsval"

definition llm_calls :: "trace \<Rightarrow> nat" where
  "llm_calls tr = length (filter is_NewLiteLLM tr)"

definition agent_calls :: "trace \<Rightarrow> nat" where
  "agent_calls tr = length (filter is_NewAgent tr)"

section \<open>loadYamlSafely\<close>

text \<open>
  A document source argument: left out (undefined), null, or a string. A parameter
  default applies to undefined only.
\<close>

datatype source_arg = Omitted | Null | Given string

fun source_default :: "source_arg \<Rightarrow> source_arg \<Rightarrow> source_arg" where
  "source_default Omitted d = d"
| "source_default a d = a"

fun source_truthy :: "source_arg \<Rightarrow> bool" where
  "source_truthy (Given s) = (s \<noteq> [])"
| "source_truthy a = False"

fun source_text :: "source_arg \<Rightarrow> string" where
  "source_text (Given s) = s"
| "source_text a = []"

text \<open>
  \<^verbatim>\<open>!agents || !Array.isArray(agents) || agents.length < 1\<close>
\<close>

definition agents_invalid :: "jsval \<Rightarrow> bool" where
  "agents_invalid a =
     (if \<not> truthy a then True else (case a of JArr xs \<Rightarrow> length xs < 1 | _ \<Rightarrow> True))"

text \<open>The body of the \<^verbatim>\<open>try\<close> block of \<^verbatim>\<open>loadYamlSafely\<close>.\<close>

definition load_body :: "env \<Rightarrow> source_arg \<Rightarrow> source_arg \<Rightarrow> error + jsval" where
  "load_body env yamlFile yamlString =
     (case (if source_truthy yamlString then yaml_parse env (source_text yamlString)
            else if source_truthy yamlFile then
              (if \<not> existsSync env (source_text yamlFile)
               then Inl (Exn Error (''YAML file '' @ source_text yamlFile @ '' not found.''))
               else (case readFileSync env (source_text yamlFile) of
                       Inl e \<Rightarrow> Inl e
                     | Inr fileContent \<Rightarrow> yaml_parse env fileContent))
            else Inl (Exn Error ''Either yamlFile or yamlString must be provided''))
      of
        Inl e \<Rightarrow> Inl e
      | Inr configDict \<Rightarrow>
          (case get_prop configDict ''agents'' of
             Inl e \<Rightarrow> Inl e
           | Inr a \<Rightarrow>
               if agents_invalid a
               then Inl (Exn Error
                      ''Invalid YAML: Must contain at least one agent configuration.'')
               else Inr configDict))"

text \<open>The \<^verbatim>\<open>catch\<close> wraps every error of the body in a new \<^verbatim>\<open>Error\<close>.\<close>

definition loadYamlSafely :: "env \<Rightarrow> source_arg \<Rightarrow> source_arg \<Rightarrow> error + jsval" where
  "loadYamlSafely env yamlFile yamlString =
     (case load_body env (source_default yamlFile Null) (source_default yamlString Null) of
        Inl e \<Rightarrow> Inl (Exn Error (''Error validating configuration: '' @ message e))
      | Inr configDict \<Rightarrow> Inr configDict)"

section \<open>createAgentWithRetry\<close>

text \<open>The object literal passed to \<^verbatim>\<open>new Agent\<close>, without its \<^verbatim>\<open>llm\<close> property.\<close>

definition agent_options :: "AgentConfig \<Rightarrow> opts" where
  "agent_options validatedConfig =
     [(''agentName'', agentName validatedConfig),
      (''systemPrompt'', systemPrompt validatedConfig),
      (''maxLoops'', maxLoops validatedConfig),
      (''autosave'', autosave validatedConfig),
      (''dashboard'', dashboard validatedConfig),
      (''verbose'', verbose validatedConfig),
      (''dynamicTemperatureEnabled'', dynamicTemperatureEnabled validatedConfig),
      (''savedStatePath'', savedStatePath validatedConfig),
      (''userName'', userName validatedConfig),
      (''retryAttempts'', retryAttempts validatedConfig),
      (''contextLength'', contextLength validatedConfig),
      (''returnStepMeta'', returnStepMeta validatedConfig),
      (''outputType'', outputType validatedConfig),
      (''autoGeneratePrompt'', autoGeneratePrompt validatedConfig),
      (''artifactsOn'', artifactsOn validatedConfig),
      (''artifactsFileExtension'', artifactsFileExtension validatedConfig),
      (''artifactsOutputPath'', artifactsOutputPath validatedConfig)]"

text \<open>
  One call of the function that \<^verbatim>\<open>retry\<close> wraps: validate, then construct. Its
  \<^verbatim>\<open>catch\<close> logs \<^verbatim>\<open>agentConfig.agent_name || "unknown"\<close> and throws the error
  again; reading the name throws itself when the node is nullish.
\<close>

definition create_attempt :: "env \<Rightarrow> jsval \<Rightarrow> llm \<Rightarrow> trace \<Rightarrow> (error + agent) \<times> trace" where
  "create_attempt env agentConfig model tr =
     (case AgentConfig_new agentConfig of
        Inl error \<Rightarrow>
          (case get_prop agentConfig ''agent_name'' of
             Inl e \<Rightarrow> (Inl e, tr)
           | Inr n \<Rightarrow> (Inl error, tr))
      | Inr validatedConfig \<Rightarrow>
          (let tr' = tr @ [NewAgent (agent_options validatedConfig) model] in
           case Agent_ctor env (agent_calls tr) (agent_options validatedConfig) model of
             Some error \<Rightarrow> (Inl error, tr')
           | None \<Rightarrow> (Inr (Agent (agent_calls tr) (agent_options validatedConfig) model), tr')))"

text \<open>
  Modelled from the spec: the \<^verbatim>\<open>retry\<close> combinator, imported from the package
  \<^verbatim>\<open>tenacity\<close> and not part of the sources. After section 4.3 of the specification:
  up to \<open>stop_after\<close> attempts; only a failure of a listed (transient) class is tried
  again, any other error propagates at once; between two attempts the policy pauses for
  an exponentially growing time kept between \<open>wait_min\<close> and \<open>wait_max\<close>; when the
  attempts are used up it raises \<open>AgentConstructionError\<close> with the agent's name and
  the last cause. The numbers and the classes of \<open>createAgent_policy\<close> are the ones
  the source passes to \<^verbatim>\<open>retry\<close>.
\<close>

record retry_policy =
  stop_after :: nat
  wait_multiplier :: nat
  wait_min :: nat
  wait_max :: nat
  retry_types :: "error_class list"

definition createAgent_policy :: retry_policy where
  "createAgent_policy =
     \<lparr> stop_after = 3, wait_multiplier = 1, wait_min = 4, wait_max = 10,
       retry_types = [ConnectionError, TimeoutError] \<rparr>"

fun transient :: "retry_policy \<Rightarrow> error \<Rightarrow> bool" where
  "transient pol (Exn c m) = (c \<in> set (retry_types pol))"
| "transient pol (AgentConstructionError n e) = False"

definition wait_time :: "retry_policy \<Rightarrow> nat \<Rightarrow> nat" where
  "wait_time pol k = max (wait_min pol) (min (wait_multiplier pol * 2 ^ (k - 1)) (wait_max pol))"

function retry_loop ::
  "retry_policy \<Rightarrow> jsval \<Rightarrow> (trace \<Rightarrow> (error + 'a) \<times> trace) \<Rightarrow> nat \<Rightarrow> trace \<Rightarrow> (error + 'a) \<times> trace"
where
  "retry_loop pol name fn k tr =
     (case fn tr of
        (Inr a, tr') \<Rightarrow> (Inr a, tr')
      | (Inl e, tr') \<Rightarrow>
          if \<not> transient pol e then (Inl e, tr')
          else if stop_after pol \<le> k then (Inl (AgentConstructionError name e), tr')
          else retry_loop pol name fn (Suc k) (tr' @ [Sleep (wait_time pol k)]))"
  by pat_completeness auto
termination
  by (relation "measure (\<lambda>(pol, name, fn, k, tr). stop_after pol - k)") auto

declare retry_loop.simps [simp del]

definition createAgentWithRetry :: "env \<Rightarrow> jsval \<Rightarrow> llm \<Rightarrow> trace \<Rightarrow> (error + agent) \<times> trace" where
  "createAgentWithRetry env agentConfig model tr =
     retry_loop createAgent_policy (read_prop agentConfig ''agent_name'')
       (create_attempt env agentConfig model) 1 tr"

section \<open>createAgentsFromYaml\<close>

record call_args =
  model :: jsval
  yamlFile :: source_arg
  yamlString :: source_arg
  returnType :: jsval

text \<open>What the call hands back: an instance, null, an array, or the output of the swarm.\<close>

datatype retval =
    RNull
  | RAgent agent
  | RRouter router
  | RArray "retval list"
  | ROutput jsval

text \<open>
  The \<^verbatim>\<open>for\<close> loop over \<^verbatim>\<open>config.agents\<close>, with the array \<^verbatim>\<open>agents\<close> it pushes
  to. The log line before the construction reads \<^verbatim>\<open>agentConfig.agent_name\<close>.
\<close>

fun build_agents :: "env \<Rightarrow> jsval list \<Rightarrow> agent list \<Rightarrow> trace \<Rightarrow> (error + agent list) \<times> trace" where
  "build_agents env [] agents tr = (Inr agents, tr)"
| "build_agents env (agentConfig # rest) agents tr =
     (case get_prop agentConfig ''agent_name'' of
        Inl e \<Rightarrow> (Inl e, tr)
      | Inr n \<Rightarrow>
          (let modelName = js_or (read_prop agentConfig ''model_name'') (JStr ''gpt-4o'');
               tr1 = tr @ [NewLiteLLM modelName]
           in case LiteLLM_ctor env (llm_calls tr) modelName of
                Some e \<Rightarrow> (Inl e, tr1)
              | None \<Rightarrow>
                  (case createAgentWithRetry env agentConfig (LiteLLM (llm_calls tr) modelName) tr1 of
                     (Inl e, tr2) \<Rightarrow> (Inl e, tr2)
                   | (Inr agent, tr2) \<Rightarrow> build_agents env rest (agents @ [agent]) tr2)))"

text \<open>The object literal passed to \<^verbatim>\<open>new SwarmRouter\<close>, without its \<^verbatim>\<open>agents\<close>.\<close>

definition router_options :: "SwarmConfig \<Rightarrow> opts" where
  "router_options swarmConfig =
     [(''name'', sw_name swarmConfig),
      (''description'', sw_description swarmConfig),
      (''maxLoops'', sw_maxLoops swarmConfig),
      (''swarmType'', sw_swarmType swarmConfig),
      (''task'', sw_task swarmConfig),
      (''flow'', sw_flow swarmConfig),
      (''autosave'', sw_autosave swarmConfig),
      (''returnJson'', sw_returnJson swarmConfig),
      (''rules'', sw_rules swarmConfig)]"

text \<open>The block \<^verbatim>\<open>if (config.swarm_architecture) { ... }\<close>.\<close>

definition build_router :: "env \<Rightarrow> jsval \<Rightarrow> agent list \<Rightarrow> trace \<Rightarrow> (error + router option) \<times> trace" where
  "build_router env config agents tr =
     (if truthy (read_prop config ''swarm_architecture'') then
        (case SwarmConfig_new (read_prop config ''swarm_architecture'') of
           Inl e \<Rightarrow> (Inl e, tr)
         | Inr swarmConfig \<Rightarrow>
             (let tr' = tr @ [NewSwarmRouter (router_options swarmConfig) agents] in
              case SwarmRouter_ctor env (router_options swarmConfig) agents of
                Some e \<Rightarrow> (Inl e, tr')
              | None \<Rightarrow> (Inr (Some (SwarmRouter (router_options swarmConfig) agents)), tr')))
      else (Inr None, tr))"

text \<open>
  The first part of the \<^verbatim>\<open>try\<close> block: load, build every agent, build the router.
  After \<open>loadYamlSafely\<close> has returned, \<^verbatim>\<open>config.agents\<close> is an array; iterating
  anything else throws.
\<close>

definition construct ::
  "env \<Rightarrow> call_args \<Rightarrow> trace \<Rightarrow> (error + jsval \<times> agent list \<times> router option) \<times> trace" where
  "construct env a tr =
     (case loadYamlSafely env (source_default (yamlFile a) (Given ''agents.yaml''))
             (source_default (yamlString a) Null) of
        Inl e \<Rightarrow> (Inl e, tr)
      | Inr config \<Rightarrow>
          (case read_prop config ''agents'' of
             JArr nodes \<Rightarrow>
               (case build_agents env nodes [] tr of
                  (Inl e, tr1) \<Rightarrow> (Inl e, tr1)
                | (Inr agents, tr1) \<Rightarrow>
                    (case build_router env config agents tr1 of
                       (Inl e, tr2) \<Rightarrow> (Inl e, tr2)
                     | (Inr swarmRouter, tr2) \<Rightarrow> (Inr (config, agents, swarmRouter), tr2)))
           | _ \<Rightarrow> (Inl (Exn TypeError ''config.agents is not iterable''), tr)))"

definition validReturnTypes :: "string list" where
  "validReturnTypes = [''auto'', ''swarm'', ''agents'', ''both'', ''tasks'', ''run_swarm'']"

text \<open>\<^verbatim>\<open>agents.length === 1 ? agents[0] : agents\<close>\<close>

definition single_or_all :: "agent list \<Rightarrow> retval" where
  "single_or_all agents = (if length agents = 1 then RAgent (agents ! 0) else RArray (map RAgent agents))"

text \<open>The check of \<^verbatim>\<open>returnType\<close> and the \<^verbatim>\<open>switch\<close> on it.\<close>

definition select_result ::
  "env \<Rightarrow> jsval \<Rightarrow> jsval \<Rightarrow> agent list \<Rightarrow> router option \<Rightarrow> trace \<Rightarrow> (error + retval) \<times> trace" where
  "select_result env rt config agents swarmRouter tr =
     (if \<not> set_has validReturnTypes rt
      then (Inl (Exn Error (''Invalid return_type. Must be one of: '' @ join '', '' validReturnTypes)), tr)
      else if rt = JStr ''run_swarm'' \<or> rt = JStr ''swarm'' then
        (case swarmRouter of
           None \<Rightarrow> (Inl (Exn Error ''Cannot run swarm: SwarmRouter not created.''), tr)
         | Some r \<Rightarrow>
             (case get_prop (read_prop config ''swarm_architecture'') ''task'' of
                Inl e \<Rightarrow> (Inl e, tr)
              | Inr t \<Rightarrow>
                  (case SwarmRouter_run env r t of
                     Inl e \<Rightarrow> (Inl e, tr @ [RunSwarm r t])
                   | Inr out \<Rightarrow> (Inr (ROutput out), tr @ [RunSwarm r t]))))
      else if rt = JStr ''agents'' then (Inr (single_or_all agents), tr)
      else if rt = JStr ''both'' then
        (Inr (RArray [case swarmRouter of None \<Rightarrow> RNull | Some r \<Rightarrow> RRouter r,
                      RArray (map RAgent agents)]), tr)
      else if rt = JStr ''tasks'' then (Inr (RArray []), tr)
      else (Inr (case swarmRouter of Some r \<Rightarrow> RRouter r | None \<Rightarrow> single_or_all agents), tr))"

text \<open>
  The whole call. The outer \<^verbatim>\<open>catch\<close> logs the error and throws it again. The
  parameter \<^verbatim>\<open>model\<close> is never read.
\<close>

definition createAgentsFromYaml :: "env \<Rightarrow> call_args \<Rightarrow> trace \<Rightarrow> (error + retval) \<times> trace" where
  "createAgentsFromYaml env a tr =
     (case construct env a tr of
        (Inl e, tr') \<Rightarrow> (Inl e, tr')
      | (Inr (config, agents, swarmRouter), tr') \<Rightarrow>
          select_result env (if returnType a = JUndefined then JStr ''auto'' else returnType a)
            config agents swarmRouter tr')"

section \<open>Example documents and environments\<close>

text \<open>
  Concrete parse trees and a concrete outside, used to run the definitions. The parser
  of \<open>example_env\<close> knows five document texts by name; every constructor succeeds.
\<close>

definition agent_A :: jsval where
  "agent_A = JObj [(''agent_name'', JStr ''A''), (''system_prompt'', JStr ''do X'')]"

definition agent_B :: jsval where
  "agent_B = JObj [(''agent_name'', JStr ''B''), (''system_prompt'', JStr ''do Y''),
                   (''model_name'', JStr ''gpt-4'')]"

definition agent_no_prompt :: jsval where
  "agent_no_prompt = JObj [(''agent_name'', JStr ''C'')]"

definition doc_single :: jsval where
  "doc_single = JObj [(''agents'', JArr [agent_A])]"

definition doc_pair :: jsval where
  "doc_pair = JObj [(''agents'', JArr [agent_A, agent_B])]"

definition doc_bogus :: jsval where
  "doc_bogus =
     JObj [(''agents'', JArr [agent_A]),
           (''swarm_architecture'',
              JObj [(''name'', JStr ''S''), (''swarm_type'', JStr ''Bogus''), (''task'', JStr ''T'')])]"

definition doc_broken :: jsval where
  "doc_broken = JObj [(''agents'', JArr [agent_A, agent_no_prompt])]"

definition doc_swarm :: jsval where
  "doc_swarm =
     JObj [(''agents'', JArr [agent_A, agent_B]),
           (''swarm_architecture'',
              JObj [(''name'', JStr ''S''), (''swarm_type'', JStr ''ConcurrentWorkflow''),
                    (''task'', JStr ''T'')])]"

definition example_env :: env where
  "example_env =
     \<lparr> yaml_parse = (\<lambda>text.
           if text = ''single'' then Inr doc_single
           else if text = ''pair'' then Inr doc_pair
           else if text = ''bogus'' then Inr doc_bogus
           else if text = ''broken'' then Inr doc_broken
           else if text = ''swarm'' then Inr doc_swarm
           else Inl (Exn (OtherError ''YAMLParseError'') ''unexpected text'')),
       existsSync = (\<lambda>path. False),
       readFileSync = (\<lambda>path. Inl (Exn Error ''ENOENT'')),
       LiteLLM_ctor = (\<lambda>n modelName. None),
       Agent_ctor = (\<lambda>n options l. None),
       SwarmRouter_ctor = (\<lambda>options agents. None),
       SwarmRouter_run = (\<lambda>r t. Inr (JStr ''done'')) \<rparr>"

text \<open>An outside whose first \<open>k\<close> calls of \<^verbatim>\<open>new Agent\<close> fail with a connection error.\<close>

definition flaky_env :: "nat \<Rightarrow> env" where
  "flaky_env k =
     example_env \<lparr> Agent_ctor := (\<lambda>n options l.
        if n < k then Some (Exn ConnectionError ''connection reset'') else None) \<rparr>"

text \<open>An outside whose \<^verbatim>\<open>new Agent\<close> always fails with an error that is not transient.\<close>

definition rejecting_env :: env where
  "rejecting_env =
     example_env \<lparr> Agent_ctor := (\<lambda>n options l. Some (Exn TypeError ''llm.run is not a function'')) \<rparr>"

text \<open>A call that passes a document text and a return type, and nothing else.\<close>

definition call :: "string \<Rightarrow> jsval \<Rightarrow> call_args" where
  "call text rt = \<lparr> model = JUndefined, yamlFile = Omitted, yamlString = Given text, returnType = rt \<rparr>"

text \<open>
  \<open>built_from node a\<close>: the agent \<open>a\<close> is the instance constructed for the node: its
  options are those of the validated node, and its backend was created for the node's
  \<^verbatim>\<open>model_name\<close> (\<open>gpt-4o\<close> when the node names none).
\<close>

definition built_from :: "jsval \<Rightarrow> agent \<Rightarrow> bool" where
  "built_from node a =
     (case AgentConfig_new node of
        Inl e \<Rightarrow> False
      | Inr vc \<Rightarrow>
          (case a of Agent n options (LiteLLM i name) \<Rightarrow>
             options = agent_options vc \<and>
             name = js_or (read_prop node ''model_name'') (JStr ''gpt-4o'')))"

text \<open>The five names the specification gives for the swarm types.\<close>

definition spec_swarmTypes :: "string list" where
  "spec_swarmTypes = [''Sequential'', ''Concurrent'', ''Rearrange'', ''MixtureOfAgents'', ''Auto'']"

section \<open>Theorems\<close>

subsection \<open>The retry policy\<close>

lemma agent_calls_append [simp]: "agent_calls (tr @ tr') = agent_calls tr + agent_calls tr'"
  by (simp add: agent_calls_def)

lemma agent_calls_simps [simp]:
  "agent_calls [] = 0"
  "agent_calls (NewAgent opts m # tr) = Suc (agent_calls tr)"
  "agent_calls (Sleep d # tr) = agent_calls tr"
  "agent_calls (NewLiteLLM mn # tr) = agent_calls tr"
  by (simp_all add: agent_calls_def)

lemma retry_loop_success:
  "fn tr = (Inr a, tr') \<Longrightarrow> retry_loop pol name fn k tr = (Inr a, tr')"
  by (subst retry_loop.simps) simp

lemma retry_loop_fatal:
  "fn tr = (Inl e, tr') \<Longrightarrow> \<not> transient pol e \<Longrightarrow> retry_loop pol name fn k tr = (Inl e, tr')"
  by (subst retry_loop.simps) simp

lemma retry_loop_exhausted:
  "fn tr = (Inl e, tr') \<Longrightarrow> transient pol e \<Longrightarrow> stop_after pol \<le> k \<Longrightarrow>
   retry_loop pol name fn k tr = (Inl (AgentConstructionError name e), tr')"
  by (subst retry_loop.simps) simp

lemma retry_loop_again:
  "fn tr = (Inl e, tr') \<Longrightarrow> transient pol e \<Longrightarrow> k < stop_after pol \<Longrightarrow>
   retry_loop pol name fn k tr = retry_loop pol name fn (Suc k) (tr' @ [Sleep (wait_time pol k)])"
  by (subst retry_loop.simps) simp

lemma create_attempt_valid:
  "AgentConfig_new c = Inr vc \<Longrightarrow>
   create_attempt env c m tr =
     (case Agent_ctor env (agent_calls tr) (agent_options vc) m of
        Some e \<Rightarrow> (Inl e, tr @ [NewAgent (agent_options vc) m])
      | None \<Rightarrow> (Inr (Agent (agent_calls tr) (agent_options vc) m), tr @ [NewAgent (agent_options vc) m]))"
  by (simp add: create_attempt_def Let_def)

lemma create_attempt_invalid:
  "AgentConfig_new c = Inl e \<Longrightarrow> \<exists>e'. create_attempt env c m tr = (Inl e', tr) \<and> \<not> transient createAgent_policy e'"
  by (auto simp: create_attempt_def AgentConfig_new_def get_prop_def createAgent_policy_def Let_def
      split: sum.splits if_splits)

lemma wait_time_policy [simp]:
  "wait_time createAgent_policy 1 = 4" "wait_time createAgent_policy (Suc 1) = 4"
  by (simp_all add: wait_time_def createAgent_policy_def)

lemma stop_after_policy [simp]: "stop_after createAgent_policy = 3"
  by (simp add: createAgent_policy_def)


lemma attempt_throws:
  "AgentConfig_new c = Inr vc \<Longrightarrow> Agent_ctor env (agent_calls tr) (agent_options vc) m = Some e \<Longrightarrow>
   create_attempt env c m tr = (Inl e, tr @ [NewAgent (agent_options vc) m])"
  by (simp add: create_attempt_valid)

lemma attempt_returns:
  "AgentConfig_new c = Inr vc \<Longrightarrow> Agent_ctor env (agent_calls tr) (agent_options vc) m = None \<Longrightarrow>
   create_attempt env c m tr =
     (Inr (Agent (agent_calls tr) (agent_options vc) m), tr @ [NewAgent (agent_options vc) m])"
  by (simp add: create_attempt_valid)

lemma retry_step:
  assumes "AgentConfig_new c = Inr vc"
    and "Agent_ctor env (agent_calls tr) (agent_options vc) m = Some e"
    and "transient createAgent_policy e" and "k = 1 \<or> k = 2"
  shows "retry_loop createAgent_policy name (create_attempt env c m) k tr =
         retry_loop createAgent_policy name (create_attempt env c m) (k + 1)
           (tr @ [NewAgent (agent_options vc) m, Sleep 4])"
proof -
  have "k < stop_after createAgent_policy" and "wait_time createAgent_policy k = 4"
    using assms(4) by (auto simp: wait_time_def createAgent_policy_def)
  then show ?thesis
    using retry_loop_again [where fn = "create_attempt env c m" and tr = tr and k = k
        and name = name, OF attempt_throws [OF assms(1,2)] assms(3)]
    by simp
qed

lemma retry_done:
  assumes "AgentConfig_new c = Inr vc"
    and "Agent_ctor env (agent_calls tr) (agent_options vc) m = None"
  shows "retry_loop createAgent_policy name (create_attempt env c m) k tr =
         (Inr (Agent (agent_calls tr) (agent_options vc) m), tr @ [NewAgent (agent_options vc) m])"
  by (rule retry_loop_success [where fn = "create_attempt env c m" and tr = tr,
        OF attempt_returns [OF assms]])

lemma retry_succeeds_after:
  assumes valid: "AgentConfig_new c = Inr vc"
    and fails: "\<forall>i<k. \<exists>e. Agent_ctor env (agent_calls tr + i) (agent_options vc) m = Some e \<and>
                  transient createAgent_policy e"
    and k: "k < 3"
    and ok: "Agent_ctor env (agent_calls tr + k) (agent_options vc) m = None"
  shows "createAgentWithRetry env c m tr =
         (Inr (Agent (agent_calls tr + k) (agent_options vc) m),
          tr @ concat (replicate k [NewAgent (agent_options vc) m, Sleep 4]) @
            [NewAgent (agent_options vc) m])"
proof -
  let ?N = "NewAgent (agent_options vc) m"
  let ?f = "create_attempt env c m"
  let ?name = "read_prop c ''agent_name''"
  have start: "createAgentWithRetry env c m tr = retry_loop createAgent_policy ?name ?f 1 tr"
    by (simp add: createAgentWithRetry_def)
  from k consider "k = 0" | "k = 1" | "k = 2" by linarith
  then show ?thesis
  proof cases
    case 1
    with ok have "Agent_ctor env (agent_calls tr) (agent_options vc) m = None" by simp
    from retry_done [OF valid this] start 1 show ?thesis by simp
  next
    case 2
    from fails [rule_format, of 0] 2 obtain e0 where
      e0: "Agent_ctor env (agent_calls tr) (agent_options vc) m = Some e0"
        "transient createAgent_policy e0"
      by auto
    have ok1: "Agent_ctor env (agent_calls (tr @ [?N, Sleep 4])) (agent_options vc) m = None"
      using ok 2 by simp
    note start
    also have "retry_loop createAgent_policy ?name ?f 1 tr =
               retry_loop createAgent_policy ?name ?f (1 + 1) (tr @ [?N, Sleep 4])"
      by (rule retry_step [OF valid e0]) simp
    also have "\<dots> = (Inr (Agent (agent_calls (tr @ [?N, Sleep 4])) (agent_options vc) m),
                     (tr @ [?N, Sleep 4]) @ [?N])"
      by (rule retry_done [OF valid ok1])
    finally show ?thesis using 2 by simp
  next
    case 3
    from fails [rule_format, of 0] 3 obtain e0 where
      e0: "Agent_ctor env (agent_calls tr) (agent_options vc) m = Some e0"
        "transient createAgent_policy e0"
      by auto
    from fails [rule_format, of 1] 3 obtain e1 where
      e1: "Agent_ctor env (agent_calls (tr @ [?N, Sleep 4])) (agent_options vc) m = Some e1"
        "transient createAgent_policy e1"
      by auto
    have ok2: "Agent_ctor env (agent_calls ((tr @ [?N, Sleep 4]) @ [?N, Sleep 4]))
                 (agent_options vc) m = None"
      using ok 3 by simp
    note start
    also have "retry_loop createAgent_policy ?name ?f 1 tr =
               retry_loop createAgent_policy ?name ?f (1 + 1) (tr @ [?N, Sleep 4])"
      by (rule retry_step [OF valid e0]) simp
    also have "\<dots> = retry_loop createAgent_policy ?name ?f (1 + 1 + 1)
                      ((tr @ [?N, Sleep 4]) @ [?N, Sleep 4])"
      by (rule retry_step [OF valid e1]) simp
    also have "\<dots> = (Inr (Agent (agent_calls ((tr @ [?N, Sleep 4]) @ [?N, Sleep 4]))
                        (agent_options vc) m),
                     ((tr @ [?N, Sleep 4]) @ [?N, Sleep 4]) @ [?N])"
      by (rule retry_done [OF valid ok2])
    finally show ?thesis using 3 by (simp add: numeral_2_eq_2)
  qed
qed

lemma retry_gives_up:
  assumes valid: "AgentConfig_new c = Inr vc"
    and fails: "\<forall>i<3. \<exists>e. Agent_ctor env (agent_calls tr + i) (agent_options vc) m = Some e \<and>
                  transient createAgent_policy e"
  shows "\<exists>e. Agent_ctor env (agent_calls tr + 2) (agent_options vc) m = Some e \<and>
           createAgentWithRetry env c m tr =
           (Inl (AgentConstructionError (read_prop c ''agent_name'') e),
            tr @ [NewAgent (agent_options vc) m, Sleep 4, NewAgent (agent_options vc) m, Sleep 4,
                  NewAgent (agent_options vc) m])"
proof -
  let ?N = "NewAgent (agent_options vc) m"
  let ?f = "create_attempt env c m"
  let ?name = "read_prop c ''agent_name''"
  from fails [rule_format, of 0] obtain e0 where
    e0: "Agent_ctor env (agent_calls tr) (agent_options vc) m = Some e0"
      "transient createAgent_policy e0"
    by auto
  from fails [rule_format, of 1] obtain e1 where
    e1: "Agent_ctor env (agent_calls (tr @ [?N, Sleep 4])) (agent_options vc) m = Some e1"
      "transient createAgent_policy e1"
    by auto
  from fails [rule_format, of 2] obtain e2 where
    e2: "Agent_ctor env (agent_calls tr + 2) (agent_options vc) m = Some e2"
      "transient createAgent_policy e2"
    by auto
  have e2': "Agent_ctor env (agent_calls ((tr @ [?N, Sleep 4]) @ [?N, Sleep 4]))
               (agent_options vc) m = Some e2"
    using e2(1) by simp
  have "createAgentWithRetry env c m tr = retry_loop createAgent_policy ?name ?f 1 tr"
    by (simp add: createAgentWithRetry_def)
  also have "\<dots> = retry_loop createAgent_policy ?name ?f (1 + 1) (tr @ [?N, Sleep 4])"
    by (rule retry_step [OF valid e0]) simp
  also have "\<dots> = retry_loop createAgent_policy ?name ?f (1 + 1 + 1)
                    ((tr @ [?N, Sleep 4]) @ [?N, Sleep 4])"
    by (rule retry_step [OF valid e1]) simp
  also have "\<dots> = (Inl (AgentConstructionError ?name e2),
                   ((tr @ [?N, Sleep 4]) @ [?N, Sleep 4]) @ [?N])"
    by (rule retry_loop_exhausted [where fn = ?f, OF attempt_throws [OF valid e2'] e2(2)])
      (simp add: createAgent_policy_def)
  finally have "createAgentWithRetry env c m tr =
        (Inl (AgentConstructionError ?name e2), tr @ [?N, Sleep 4, ?N, Sleep 4, ?N])"
    by simp
  with e2(1) show ?thesis by blast
qed

lemma retry_propagates:
  assumes valid: "AgentConfig_new c = Inr vc"
    and "Agent_ctor env (agent_calls tr) (agent_options vc) m = Some e"
    and "\<not> transient createAgent_policy e"
  shows "createAgentWithRetry env c m tr = (Inl e, tr @ [NewAgent (agent_options vc) m])"
  unfolding createAgentWithRetry_def
  by (rule retry_loop_fatal [where fn = "create_attempt env c m" and tr = tr,
        OF attempt_throws [OF assms(1,2)] assms(3)])

lemma retry_invalid:
  assumes "AgentConfig_new c = Inl e"
  shows "\<exists>e'. createAgentWithRetry env c m tr = (Inl e', tr) \<and> (\<not> nullish c \<longrightarrow> e' = e)"
proof -
  have "create_attempt env c m tr =
        (Inl (case get_prop c ''agent_name'' of Inl e' \<Rightarrow> e' | Inr n \<Rightarrow> e), tr)"
    using assms by (simp add: create_attempt_def split: sum.splits)
  moreover have "\<not> transient createAgent_policy (case get_prop c ''agent_name'' of Inl e' \<Rightarrow> e' | Inr n \<Rightarrow> e)"
    using assms
    by (auto simp: AgentConfig_new_def get_prop_def createAgent_policy_def Let_def
        split: sum.splits if_splits)
  ultimately have "createAgentWithRetry env c m tr =
      (Inl (case get_prop c ''agent_name'' of Inl e' \<Rightarrow> e' | Inr n \<Rightarrow> e), tr)"
    unfolding createAgentWithRetry_def by (rule retry_loop_fatal)
  then show ?thesis by (auto simp: get_prop_def)
qed


subsection \<open>Validation of agent and swarm nodes\<close>

lemma dropWhile_all_iff: "(\<forall>x\<in>set (dropWhile P xs). P x) = (\<forall>x\<in>set xs. P x)"
proof
  assume a: "\<forall>x\<in>set (dropWhile P xs). P x"
  have "dropWhile P xs = []"
  proof (rule ccontr)
    assume ne: "dropWhile P xs \<noteq> []"
    then have "\<not> P (hd (dropWhile P xs))" by (rule hd_dropWhile)
    moreover from ne have "hd (dropWhile P xs) \<in> set (dropWhile P xs)" by simp
    ultimately show False using a by blast
  qed
  then show "\<forall>x\<in>set xs. P x" by (simp add: dropWhile_eq_Nil_conv)
next
  assume "\<forall>x\<in>set xs. P x"
  then show "\<forall>x\<in>set (dropWhile P xs). P x" by (meson set_dropWhileD)
qed

lemma trim_empty_iff: "(trim s = []) = (\<forall>c\<in>set s. is_js_whitespace c)"
  by (simp add: trim_def dropWhile_all_iff)

lemma systemPrompt_rejected_iff:
  "systemPrompt_rejected p = (\<forall>s. p = JStr s \<longrightarrow> trim s = [])"
  by (cases p) (auto simp: systemPrompt_rejected_def trim_def)

lemma transient_policy_iff:
  "transient createAgent_policy e = (\<exists>m. e = Exn ConnectionError m \<or> e = Exn TimeoutError m)"
  by (cases e) (auto simp: createAgent_policy_def)

text \<open>
  Claim C1, as stated, names the five values \<open>Sequential\<close>, \<open>Concurrent\<close>,
  \<open>Rearrange\<close>, \<open>MixtureOfAgents\<close> and \<open>Auto\<close>. The constructor accepts the
  string \<open>SequentialWorkflow\<close>, which is not one of them (and it rejects the string
  \<open>Sequential\<close>, which is).
\<close>

theorem SwarmConfig_spec_names_counterexample:
  "\<not> set_has spec_swarmTypes (JStr ''SequentialWorkflow'') \<and>
   \<not> isl (SwarmConfig_new (JObj [(''name'', JStr ''S''), (''swarm_type'', JStr ''SequentialWorkflow'')])) \<and>
   set_has spec_swarmTypes (JStr ''Sequential'') \<and>
   isl (SwarmConfig_new (JObj [(''name'', JStr ''S''), (''swarm_type'', JStr ''Sequential'')]))"
  by (simp add: set_has_def spec_swarmTypes_def SwarmConfig_new_def get_prop_def validTypes_def
      Let_def)

text \<open>
  Claim C1, amended: \<^verbatim>\<open>new SwarmConfig(node)\<close> succeeds exactly when the
  \<^verbatim>\<open>swarm_type\<close> of the node is one of the five strings \<open>SequentialWorkflow\<close>,
  \<open>ConcurrentWorkflow\<close>, \<open>AgentRearrange\<close>, \<open>MixtureOfAgents\<close> and \<open>auto\<close>;
  the validated configuration then holds the value as it was supplied; and for every
  other value (a missing one, a value that is not a string, any other string) of a node
  that is not null or undefined it fails with the validation error that lists the five
  strings.
\<close>

theorem SwarmConfig_swarm_type_closed:
  "((\<exists>sc. SwarmConfig_new node = Inr sc) \<longleftrightarrow>
      read_prop node ''swarm_type'' \<in> JStr ` {''SequentialWorkflow'', ''ConcurrentWorkflow'',
         ''AgentRearrange'', ''MixtureOfAgents'', ''auto''}) \<and>
   (\<forall>sc. SwarmConfig_new node = Inr sc \<longrightarrow> sw_swarmType sc = read_prop node ''swarm_type'') \<and>
   (\<not> nullish node \<and>
    read_prop node ''swarm_type'' \<notin> JStr ` {''SequentialWorkflow'', ''ConcurrentWorkflow'',
         ''AgentRearrange'', ''MixtureOfAgents'', ''auto''} \<longrightarrow>
    SwarmConfig_new node = Inl (Exn Error
      ''Swarm type must be one of: SequentialWorkflow, ConcurrentWorkflow, AgentRearrange, MixtureOfAgents, auto''))"
proof -
  have has: "set_has validTypes v \<longleftrightarrow>
      v \<in> JStr ` {''SequentialWorkflow'', ''ConcurrentWorkflow'', ''AgentRearrange'',
         ''MixtureOfAgents'', ''auto''}" for v
    by (cases v) (auto simp: set_has_def validTypes_def)
  have nullish_type: "nullish node \<Longrightarrow> read_prop node ''swarm_type'' = JUndefined"
    by (cases node) simp_all
  have msg: "''Swarm type must be one of: '' @ join '', '' validTypes =
      ''Swarm type must be one of: SequentialWorkflow, ConcurrentWorkflow, AgentRearrange, MixtureOfAgents, auto''"
    by (simp add: validTypes_def)
  show ?thesis
  proof (cases "nullish node")
    case True
    then have "read_prop node ''swarm_type'' = JUndefined" by (rule nullish_type)
    with True show ?thesis
      by (auto simp: SwarmConfig_new_def get_prop_def)
  next
    case False
    then show ?thesis
      unfolding SwarmConfig_new_def get_prop_def Let_def msg
      by (auto simp: has)
  qed
qed

text \<open>
  The theorem at two nodes: the type \<open>auto\<close> is accepted, the type \<open>Bogus\<close> is
  rejected.
\<close>

theorem SwarmConfig_swarm_type_closed_witness:
  "(\<exists>sc. SwarmConfig_new (JObj [(''name'', JStr ''S''), (''swarm_type'', JStr ''auto'')]) = Inr sc) \<and>
   SwarmConfig_new (JObj [(''name'', JStr ''S''), (''swarm_type'', JStr ''Bogus'')]) =
     Inl (Exn Error
      ''Swarm type must be one of: SequentialWorkflow, ConcurrentWorkflow, AgentRearrange, MixtureOfAgents, auto'')"
  using SwarmConfig_swarm_type_closed [of "JObj [(''name'', JStr ''S''), (''swarm_type'', JStr ''auto'')]"]
    SwarmConfig_swarm_type_closed [of "JObj [(''name'', JStr ''S''), (''swarm_type'', JStr ''Bogus'')]"]
  by simp

text \<open>
  The operational flags of a validated node. A flag written with \<^verbatim>\<open>|| false\<close>
  keeps a supplied boolean and is \<open>false\<close> when the key is absent; \<open>autosave\<close>,
  written with \<^verbatim>\<open>|| true\<close>, is \<open>true\<close> when the key is absent and is never
  \<open>false\<close>.
\<close>

lemma AgentConfig_new_flags:
  assumes "AgentConfig_new node = Inr vc"
  shows "autosave vc = js_or (read_prop node ''autosave'') (JBool True)"
    and "dashboard vc = js_or (read_prop node ''dashboard'') (JBool False)"
    and "verbose vc = js_or (read_prop node ''verbose'') (JBool False)"
    and "dynamicTemperatureEnabled vc =
           js_or (read_prop node ''dynamic_temperature_enabled'') (JBool False)"
    and "autoGeneratePrompt vc = js_or (read_prop node ''auto_generate_prompt'') (JBool False)"
    and "artifactsOn vc = js_or (read_prop node ''artifacts_on'') (JBool False)"
proof -
  from assms have "\<not> nullish node"
    by (auto simp: AgentConfig_new_def get_prop_def)
  with assms have "vc = \<lparr>
      agentName = read_prop node ''agent_name'',
      systemPrompt = read_prop node ''system_prompt'',
      modelName = js_or (read_prop node ''model_name'') JNull,
      maxLoops = js_or (read_prop node ''max_loops'') (JNum 1),
      autosave = js_or (read_prop node ''autosave'') (JBool True),
      dashboard = js_or (read_prop node ''dashboard'') (JBool False),
      verbose = js_or (read_prop node ''verbose'') (JBool False),
      dynamicTemperatureEnabled =
        js_or (read_prop node ''dynamic_temperature_enabled'') (JBool False),
      savedStatePath = js_or (read_prop node ''saved_state_path'') JNull,
      userName = js_or (read_prop node ''user_name'') (JStr ''default_user''),
      retryAttempts = js_or (read_prop node ''retry_attempts'') (JNum 3),
      contextLength = js_or (read_prop node ''context_length'') (JNum 100000),
      returnStepMeta = js_or (read_prop node ''return_step_meta'') (JBool False),
      outputType = js_or (read_prop node ''output_type'') (JStr ''str''),
      autoGeneratePrompt = js_or (read_prop node ''auto_generate_prompt'') (JBool False),
      artifactsOn = js_or (read_prop node ''artifacts_on'') (JBool False),
      artifactsFileExtension = js_or (read_prop node ''artifacts_file_extension'') (JStr ''.md''),
      artifactsOutputPath = js_or (read_prop node ''artifacts_output_path'') (JStr []) \<rparr>"
    by (simp add: AgentConfig_new_def get_prop_def Let_def split: if_splits)
  then show "autosave vc = js_or (read_prop node ''autosave'') (JBool True)"
    and "dashboard vc = js_or (read_prop node ''dashboard'') (JBool False)"
    and "verbose vc = js_or (read_prop node ''verbose'') (JBool False)"
    and "dynamicTemperatureEnabled vc =
           js_or (read_prop node ''dynamic_temperature_enabled'') (JBool False)"
    and "autoGeneratePrompt vc = js_or (read_prop node ''auto_generate_prompt'') (JBool False)"
    and "artifactsOn vc = js_or (read_prop node ''artifacts_on'') (JBool False)"
    by simp_all
qed

lemma js_or_flag:
  "js_or (JBool b) (JBool False) = JBool b"
  "js_or JUndefined (JBool d) = JBool d"
  "js_or v (JBool True) \<noteq> JBool False"
  by (auto simp: js_or_def)

text \<open>
  Claim C4 at the node \<^verbatim>\<open>{agent_name: "A", system_prompt: "do X", autosave: false}\<close>:
  the validated configuration has \<open>autosave = true\<close>, because
  \<^verbatim>\<open>config.autosave || true\<close> replaces every falsy value, also a supplied
  \<^verbatim>\<open>false\<close>.
\<close>

theorem AgentConfig_autosave_false_ignored:
  "map_sum id autosave
     (AgentConfig_new (JObj [(''agent_name'', JStr ''A''), (''system_prompt'', JStr ''do X''),
                             (''autosave'', JBool False)])) = Inr (JBool True)"
  by (simp add: AgentConfig_new_def get_prop_def systemPrompt_rejected_def Let_def js_or_def
      trim_def is_js_whitespace_def)

text \<open>
  Claim C8: when the \<^verbatim>\<open>system_prompt\<close> of a node is missing, is not a string, or is
  a string that is empty after trimming, \<^verbatim>\<open>new AgentConfig(node)\<close> fails; on every
  node that is not null or undefined the error is the validation error
  \<open>System prompt must be a non-empty string\<close> (on null and undefined the first
  property read throws a TypeError).
\<close>

theorem AgentConfig_rejects_bad_systemPrompt:
  assumes "\<forall>s. read_prop node ''system_prompt'' = JStr s \<longrightarrow> trim s = []"
  shows "isl (AgentConfig_new node) \<and>
         (\<not> nullish node \<longrightarrow>
            AgentConfig_new node = Inl (Exn Error ''System prompt must be a non-empty string''))"
  using assms
  by (simp add: AgentConfig_new_def get_prop_def systemPrompt_rejected_iff Let_def)

text \<open>
  The theorem at a node without a prompt, at a node whose prompt is two spaces, and at a
  node whose prompt is a number.
\<close>

theorem AgentConfig_rejects_bad_systemPrompt_witness:
  "read_prop agent_no_prompt ''system_prompt'' = JUndefined \<and>
   trim ''  '' = [] \<and>
   AgentConfig_new agent_no_prompt = Inl (Exn Error ''System prompt must be a non-empty string'') \<and>
   AgentConfig_new (JObj [(''agent_name'', JStr ''D''), (''system_prompt'', JStr ''  '')]) =
     Inl (Exn Error ''System prompt must be a non-empty string'') \<and>
   AgentConfig_new (JObj [(''agent_name'', JStr ''E''), (''system_prompt'', JNum 7)]) =
     Inl (Exn Error ''System prompt must be a non-empty string'')"
proof -
  have 1: "\<forall>s. read_prop agent_no_prompt ''system_prompt'' = JStr s \<longrightarrow> trim s = []"
    by (simp add: agent_no_prompt_def)
  have 2: "\<forall>s. read_prop (JObj [(''agent_name'', JStr ''D''), (''system_prompt'', JStr ''  '')])
              ''system_prompt'' = JStr s \<longrightarrow> trim s = []"
    by (simp add: trim_def is_js_whitespace_def)
  have 3: "\<forall>s. read_prop (JObj [(''agent_name'', JStr ''E''), (''system_prompt'', JNum 7)])
              ''system_prompt'' = JStr s \<longrightarrow> trim s = []"
    by simp
  show ?thesis
    using 1 AgentConfig_rejects_bad_systemPrompt [OF 1] AgentConfig_rejects_bad_systemPrompt [OF 2]
      AgentConfig_rejects_bad_systemPrompt [OF 3]
    by (simp add: agent_no_prompt_def trim_def is_js_whitespace_def)
qed


text \<open>
  Claim C7. An attempt on a valid node makes one call of \<^verbatim>\<open>new Agent\<close>, so
  \<open>agent_calls\<close> counts the attempts. For a valid node:
  if the first \<open>k\<close> calls fail with a transient error, \<open>k < 3\<close>, and the next call
  returns, the build returns that agent after exactly \<open>k + 1\<close> attempts, with a pause
  of 4 time units (within the bounds 4 and 10) after each failed one;
  if the first three calls fail with a transient error, the build fails with
  \<open>AgentConstructionError\<close> after exactly 3 attempts;
  if the first call fails with an error that is not transient, that error propagates
  after this one attempt, with no pause.
  For a node that fails validation, the validation error propagates at once: no call
  of \<^verbatim>\<open>new Agent\<close>, no pause.
\<close>

theorem createAgentWithRetry_retry_bound:
  "(AgentConfig_new node = Inr vc \<and>
    (\<forall>i<k. \<exists>e. Agent_ctor env (agent_calls tr + i) (agent_options vc) m = Some e \<and>
               transient createAgent_policy e) \<and>
    k < 3 \<and> Agent_ctor env (agent_calls tr + k) (agent_options vc) m = None \<longrightarrow>
      fst (createAgentWithRetry env node m tr) = Inr (Agent (agent_calls tr + k) (agent_options vc) m) \<and>
      agent_calls (snd (createAgentWithRetry env node m tr)) = agent_calls tr + (k + 1) \<and>
      snd (createAgentWithRetry env node m tr) =
        tr @ concat (replicate k [NewAgent (agent_options vc) m, Sleep 4]) @
          [NewAgent (agent_options vc) m]) \<and>
   (AgentConfig_new node = Inr vc \<and>
    (\<forall>i<3. \<exists>e. Agent_ctor env (agent_calls tr + i) (agent_options vc) m = Some e \<and>
               transient createAgent_policy e) \<longrightarrow>
      (\<exists>e. fst (createAgentWithRetry env node m tr) =
             Inl (AgentConstructionError (read_prop node ''agent_name'') e)) \<and>
      agent_calls (snd (createAgentWithRetry env node m tr)) = agent_calls tr + 3) \<and>
   (AgentConfig_new node = Inr vc \<and>
    Agent_ctor env (agent_calls tr) (agent_options vc) m = Some err \<and>
    \<not> transient createAgent_policy err \<longrightarrow>
      createAgentWithRetry env node m tr = (Inl err, tr @ [NewAgent (agent_options vc) m])) \<and>
   (AgentConfig_new node = Inl err \<and> \<not> nullish node \<longrightarrow>
      createAgentWithRetry env node m tr = (Inl err, tr))"
proof (intro conjI impI)
  assume a: "AgentConfig_new node = Inr vc \<and>
    (\<forall>i<k. \<exists>e. Agent_ctor env (agent_calls tr + i) (agent_options vc) m = Some e \<and>
               transient createAgent_policy e) \<and>
    k < 3 \<and> Agent_ctor env (agent_calls tr + k) (agent_options vc) m = None"
  then have r: "createAgentWithRetry env node m tr =
         (Inr (Agent (agent_calls tr + k) (agent_options vc) m),
          tr @ concat (replicate k [NewAgent (agent_options vc) m, Sleep 4]) @
            [NewAgent (agent_options vc) m])"
    by (intro retry_succeeds_after) simp_all
  show "fst (createAgentWithRetry env node m tr) =
        Inr (Agent (agent_calls tr + k) (agent_options vc) m)"
    by (simp add: r)
  show "snd (createAgentWithRetry env node m tr) =
        tr @ concat (replicate k [NewAgent (agent_options vc) m, Sleep 4]) @
          [NewAgent (agent_options vc) m]"
    by (simp add: r)
  have "agent_calls (concat (replicate k [NewAgent (agent_options vc) m, Sleep 4])) = k"
    by (induction k) simp_all
  then show "agent_calls (snd (createAgentWithRetry env node m tr)) = agent_calls tr + (k + 1)"
    by (simp add: r)
next
  assume a: "AgentConfig_new node = Inr vc \<and>
    (\<forall>i<3. \<exists>e. Agent_ctor env (agent_calls tr + i) (agent_options vc) m = Some e \<and>
               transient createAgent_policy e)"
  then have "\<exists>e. Agent_ctor env (agent_calls tr + 2) (agent_options vc) m = Some e \<and>
           createAgentWithRetry env node m tr =
           (Inl (AgentConstructionError (read_prop node ''agent_name'') e),
            tr @ [NewAgent (agent_options vc) m, Sleep 4, NewAgent (agent_options vc) m, Sleep 4,
                  NewAgent (agent_options vc) m])"
    by (intro retry_gives_up) simp_all
  then obtain e where r: "createAgentWithRetry env node m tr =
           (Inl (AgentConstructionError (read_prop node ''agent_name'') e),
            tr @ [NewAgent (agent_options vc) m, Sleep 4, NewAgent (agent_options vc) m, Sleep 4,
                  NewAgent (agent_options vc) m])"
    by blast
  show "\<exists>e. fst (createAgentWithRetry env node m tr) =
             Inl (AgentConstructionError (read_prop node ''agent_name'') e)"
    by (simp add: r)
  show "agent_calls (snd (createAgentWithRetry env node m tr)) = agent_calls tr + 3"
    by (simp add: r)
next
  assume "AgentConfig_new node = Inr vc \<and>
    Agent_ctor env (agent_calls tr) (agent_options vc) m = Some err \<and>
    \<not> transient createAgent_policy err"
  then show "createAgentWithRetry env node m tr = (Inl err, tr @ [NewAgent (agent_options vc) m])"
    by (intro retry_propagates) simp_all
next
  assume "AgentConfig_new node = Inl err \<and> \<not> nullish node"
  then show "createAgentWithRetry env node m tr = (Inl err, tr)"
    using retry_invalid [of node err env m tr] by auto
qed

lemma AgentConfig_new_agent_A:
  "AgentConfig_new agent_A =
     Inr \<lparr> agentName = JStr ''A'', systemPrompt = JStr ''do X'', modelName = JNull,
           maxLoops = JNum 1, autosave = JBool True, dashboard = JBool False,
           verbose = JBool False, dynamicTemperatureEnabled = JBool False,
           savedStatePath = JNull, userName = JStr ''default_user'', retryAttempts = JNum 3,
           contextLength = JNum 100000, returnStepMeta = JBool False, outputType = JStr ''str'',
           autoGeneratePrompt = JBool False, artifactsOn = JBool False,
           artifactsFileExtension = JStr ''.md'', artifactsOutputPath = JStr [] \<rparr>"
  by (simp add: agent_A_def AgentConfig_new_def get_prop_def systemPrompt_rejected_def Let_def
      js_or_def trim_def is_js_whitespace_def)

text \<open>
  The theorem at four runs: two connection errors and then success (three attempts, two
  pauses); three connection errors (failure after three attempts); a TypeError of the
  constructor (one attempt); a node without a prompt (no attempt reaches the
  constructor).
\<close>

theorem createAgentWithRetry_retry_bound_witness:
  "(\<exists>a. createAgentWithRetry (flaky_env 2) agent_A (LiteLLM 0 (JStr ''gpt-4o'')) [] = (Inr a,
        [NewAgent (agent_options (projr (AgentConfig_new agent_A))) (LiteLLM 0 (JStr ''gpt-4o'')),
         Sleep 4,
         NewAgent (agent_options (projr (AgentConfig_new agent_A))) (LiteLLM 0 (JStr ''gpt-4o'')),
         Sleep 4,
         NewAgent (agent_options (projr (AgentConfig_new agent_A))) (LiteLLM 0 (JStr ''gpt-4o''))])) \<and>
   isl (fst (createAgentWithRetry (flaky_env 3) agent_A (LiteLLM 0 (JStr ''gpt-4o'')) [])) \<and>
   agent_calls (snd (createAgentWithRetry (flaky_env 3) agent_A (LiteLLM 0 (JStr ''gpt-4o'')) [])) = 3 \<and>
   agent_calls (snd (createAgentWithRetry rejecting_env agent_A (LiteLLM 0 (JStr ''gpt-4o'')) [])) = 1 \<and>
   createAgentWithRetry example_env agent_no_prompt (LiteLLM 0 (JStr ''gpt-4o'')) [] =
     (Inl (Exn Error ''System prompt must be a non-empty string''), [])"
proof -
  let ?m = "LiteLLM 0 (JStr ''gpt-4o'')"
  let ?vc = "projr (AgentConfig_new agent_A)"
  have valid: "AgentConfig_new agent_A = Inr ?vc"
    by (simp add: AgentConfig_new_agent_A)
  have t: "transient createAgent_policy (Exn ConnectionError ''connection reset'')"
    by (simp add: createAgent_policy_def)
  have f2: "\<forall>i<2. \<exists>e. Agent_ctor (flaky_env 2) (agent_calls [] + i) (agent_options ?vc) ?m = Some e \<and>
               transient createAgent_policy e"
    using t by (simp add: flaky_env_def)
  have ok2: "Agent_ctor (flaky_env 2) (agent_calls [] + 2) (agent_options ?vc) ?m = None"
    by (simp add: flaky_env_def)
  have f3: "\<forall>i<3. \<exists>e. Agent_ctor (flaky_env 3) (agent_calls [] + i) (agent_options ?vc) ?m = Some e \<and>
               transient createAgent_policy e"
    using t by (simp add: flaky_env_def)
  have rej: "Agent_ctor rejecting_env (agent_calls []) (agent_options ?vc) ?m =
               Some (Exn TypeError ''llm.run is not a function'') \<and>
             \<not> transient createAgent_policy (Exn TypeError ''llm.run is not a function'')"
    by (simp add: rejecting_env_def createAgent_policy_def)
  have inv: "AgentConfig_new agent_no_prompt =
               Inl (Exn Error ''System prompt must be a non-empty string'') \<and>
             \<not> nullish agent_no_prompt"
    by (simp add: agent_no_prompt_def AgentConfig_new_def get_prop_def systemPrompt_rejected_def
        Let_def)
  have a: "snd (createAgentWithRetry (flaky_env 2) agent_A ?m []) =
        [NewAgent (agent_options ?vc) ?m, Sleep 4, NewAgent (agent_options ?vc) ?m, Sleep 4,
         NewAgent (agent_options ?vc) ?m]"
      "fst (createAgentWithRetry (flaky_env 2) agent_A ?m []) = Inr (Agent 2 (agent_options ?vc) ?m)"
    using createAgentWithRetry_retry_bound [of agent_A ?vc 2 "flaky_env 2" "[]" ?m "Exn Error []"]
      valid f2 ok2
    by (simp_all add: numeral_2_eq_2)
  have b: "isl (fst (createAgentWithRetry (flaky_env 3) agent_A ?m []))"
      "agent_calls (snd (createAgentWithRetry (flaky_env 3) agent_A ?m [])) = 3"
    using createAgentWithRetry_retry_bound [of agent_A ?vc 0 "flaky_env 3" "[]" ?m "Exn Error []"]
      valid f3
    by auto
  have c: "agent_calls (snd (createAgentWithRetry rejecting_env agent_A ?m [])) = 1"
    using createAgentWithRetry_retry_bound [of agent_A ?vc 0 rejecting_env "[]" ?m
        "Exn TypeError ''llm.run is not a function''"] valid rej
    by simp
  have d: "createAgentWithRetry example_env agent_no_prompt ?m [] =
     (Inl (Exn Error ''System prompt must be a non-empty string''), [])"
    using createAgentWithRetry_retry_bound [of agent_no_prompt undefined 0 example_env "[]" ?m
        "Exn Error ''System prompt must be a non-empty string''"] inv
    by simp
  from a b c d show ?thesis
    by (simp add: prod_eq_iff)
qed

subsection \<open>The pipeline\<close>

lemma retry_loop_filter:
  assumes "\<And>tr. filter Q (snd (fn tr)) = filter Q tr" and "\<And>d. \<not> Q (Sleep d)"
  shows "filter Q (snd (retry_loop pol name fn k tr)) = filter Q tr"
  using assms
proof (induction pol name fn k tr rule: retry_loop.induct)
  case (1 pol name fn k tr)
  obtain r tr' where r: "fn tr = (r, tr')" by (cases "fn tr")
  with "1.prems"(1) [of tr] have tr': "filter Q tr' = filter Q tr" by simp
  show ?case
  proof (cases r)
    case (Inr a)
    with r tr' show ?thesis by (subst retry_loop.simps) simp
  next
    case (Inl e)
    show ?thesis
    proof (cases "transient pol e \<and> \<not> stop_after pol \<le> k")
      case True
      with r Inl have "retry_loop pol name fn k tr =
          retry_loop pol name fn (Suc k) (tr' @ [Sleep (wait_time pol k)])"
        by (subst retry_loop.simps) simp
      moreover have "filter Q (snd (retry_loop pol name fn (Suc k) (tr' @ [Sleep (wait_time pol k)]))) =
          filter Q (tr' @ [Sleep (wait_time pol k)])"
        using "1.IH" [OF r [symmetric] Inl] True "1.prems" by simp
      ultimately show ?thesis using tr' "1.prems"(2) by simp
    next
      case False
      with r Inl tr' show ?thesis by (subst retry_loop.simps) auto
    qed
  qed
qed

lemma retry_loop_returns:
  "retry_loop pol name fn k tr = (Inr a, tr') \<Longrightarrow> \<exists>tr0. fn tr0 = (Inr a, tr')"
proof (induction pol name fn k tr rule: retry_loop.induct)
  case (1 pol name fn k tr)
  obtain r tr1 where r: "fn tr = (r, tr1)" by (cases "fn tr")
  show ?case
  proof (cases r)
    case (Inr b)
    with r "1.prems" show ?thesis by (subst (asm) retry_loop.simps) auto
  next
    case (Inl e)
    show ?thesis
    proof (cases "transient pol e \<and> \<not> stop_after pol \<le> k")
      case True
      with r Inl "1.prems" have "retry_loop pol name fn (Suc k) (tr1 @ [Sleep (wait_time pol k)]) =
          (Inr a, tr')"
        by (subst (asm) retry_loop.simps) simp
      with "1.IH" [OF r [symmetric] Inl] True show ?thesis by simp
    next
      case False
      with r Inl "1.prems" show ?thesis
        by (subst (asm) retry_loop.simps) (auto split: if_splits)
    qed
  qed
qed

lemma create_attempt_filter:
  assumes "\<And>options l. \<not> Q (NewAgent options l)"
  shows "filter Q (snd (create_attempt env c m tr)) = filter Q tr"
  using assms by (simp add: create_attempt_def Let_def split: sum.splits option.splits)

lemma createAgentWithRetry_filter:
  assumes "\<And>options l. \<not> Q (NewAgent options l)" and "\<And>d. \<not> Q (Sleep d)"
  shows "filter Q (snd (createAgentWithRetry env c m tr)) = filter Q tr"
  unfolding createAgentWithRetry_def
  by (rule retry_loop_filter) (simp_all add: create_attempt_filter assms)

text \<open>An agent that was built from a node: its options are those of the validated node.\<close>

lemma createAgentWithRetry_returns:
  assumes "createAgentWithRetry env c m tr = (Inr a, tr')"
  shows "\<exists>vc n. AgentConfig_new c = Inr vc \<and> a = Agent n (agent_options vc) m"
proof -
  from assms obtain tr0 where "create_attempt env c m tr0 = (Inr a, tr')"
    unfolding createAgentWithRetry_def by (blast dest: retry_loop_returns)
  then show ?thesis
    by (auto simp: create_attempt_def Let_def split: sum.splits option.splits)
qed

lemma llm_calls_simps [simp]:
  "llm_calls [] = 0"
  "llm_calls (tr @ tr') = llm_calls tr + llm_calls tr'"
  "llm_calls (NewLiteLLM mn # tr) = Suc (llm_calls tr)"
  by (simp_all add: llm_calls_def)

lemma createAgentWithRetry_llm_calls:
  "llm_calls (snd (createAgentWithRetry env c m tr)) = llm_calls tr"
  unfolding llm_calls_def by (simp add: createAgentWithRetry_filter)


lemma build_agents_append:
  "build_agents env (xs @ ys) acc tr =
     (case build_agents env xs acc tr of
        (Inl e, tr') \<Rightarrow> (Inl e, tr')
      | (Inr agents, tr') \<Rightarrow> build_agents env ys agents tr')"
  by (induction xs arbitrary: acc tr)
    (auto simp: Let_def split: sum.splits option.splits prod.splits)

lemma build_agents_filter:
  assumes "\<And>mn. \<not> Q (NewLiteLLM mn)" and "\<And>options l. \<not> Q (NewAgent options l)"
    and "\<And>d. \<not> Q (Sleep d)"
  shows "filter Q (snd (build_agents env nodes acc tr)) = filter Q tr"
proof (induction nodes arbitrary: acc tr)
  case Nil
  show ?case by simp
next
  case (Cons node nodes)
  let ?mn = "js_or (read_prop node ''model_name'') (JStr ''gpt-4o'')"
  let ?r = "createAgentWithRetry env node (LiteLLM (llm_calls tr) ?mn) (tr @ [NewLiteLLM ?mn])"
  have "filter Q (snd ?r) = filter Q tr"
    using createAgentWithRetry_filter [of Q env node "LiteLLM (llm_calls tr) ?mn"
        "tr @ [NewLiteLLM ?mn]"] assms
    by simp
  then show ?case
    using Cons.IH assms(1)
    by (cases ?r) (auto simp: Let_def split: sum.splits option.splits)
qed

lemma build_agents_returns:
  "build_agents env nodes acc tr = (Inr agents, tr1) \<Longrightarrow>
   \<exists>new. agents = acc @ new \<and> list_all2 built_from nodes new \<and>
         llm_calls tr1 = llm_calls tr + length nodes"
proof (induction nodes arbitrary: acc tr)
  case Nil
  then show ?case by simp
next
  case (Cons node nodes)
  let ?mn = "js_or (read_prop node ''model_name'') (JStr ''gpt-4o'')"
  let ?m = "LiteLLM (llm_calls tr) ?mn"
  from Cons.prems obtain a tr2 where
    a: "createAgentWithRetry env node ?m (tr @ [NewLiteLLM ?mn]) = (Inr a, tr2)"
    and rest: "build_agents env nodes (acc @ [a]) tr2 = (Inr agents, tr1)"
    by (auto simp: Let_def split: sum.splits option.splits prod.splits)
  from createAgentWithRetry_returns [OF a] have built: "built_from node a"
    by (auto simp: built_from_def)
  from createAgentWithRetry_llm_calls [of env node ?m "tr @ [NewLiteLLM ?mn]"] a
  have calls: "llm_calls tr2 = Suc (llm_calls tr)" by simp
  from Cons.IH [OF rest] obtain new where
    "agents = (acc @ [a]) @ new" "list_all2 built_from nodes new"
    "llm_calls tr1 = llm_calls tr2 + length nodes"
    by blast
  with built calls have "agents = acc @ (a # new) \<and> list_all2 built_from (node # nodes) (a # new) \<and>
      llm_calls tr1 = llm_calls tr + length (node # nodes)"
    by simp
  then show ?case by blast
qed

lemma construct_returns:
  assumes "construct env a tr = (Inr (config, agents, swarmRouter), tr')"
  shows "\<exists>nodes tr1.
           loadYamlSafely env (source_default (yamlFile a) (Given ''agents.yaml''))
             (source_default (yamlString a) Null) = Inr config \<and>
           read_prop config ''agents'' = JArr nodes \<and>
           build_agents env nodes [] tr = (Inr agents, tr1) \<and>
           build_router env config agents tr1 = (Inr swarmRouter, tr')"
  using assms
  by (auto simp: construct_def split: sum.splits jsval.splits prod.splits)

lemma build_router_undeclared:
  "\<not> truthy (read_prop config ''swarm_architecture'') \<Longrightarrow>
   build_router env config agents tr = (Inr None, tr)"
  by (simp add: build_router_def)

lemma validReturnTypes_iff:
  "set_has validReturnTypes rt \<longleftrightarrow>
     rt \<in> JStr ` {''auto'', ''swarm'', ''agents'', ''both'', ''tasks'', ''run_swarm''}"
  by (cases rt) (auto simp: set_has_def validReturnTypes_def)

lemma agents_valid_iff: "\<not> agents_invalid v \<longleftrightarrow> (\<exists>node nodes. v = JArr (node # nodes))"
  by (cases v) (auto simp: agents_invalid_def neq_Nil_conv)

lemma load_body_returns:
  "load_body env f s = Inr config \<Longrightarrow> \<not> agents_invalid (read_prop config ''agents'')"
  by (auto simp: load_body_def get_prop_def split: sum.splits if_splits)

lemma loadYamlSafely_returns:
  "loadYamlSafely env f s = Inr config \<Longrightarrow>
   \<exists>node nodes. read_prop config ''agents'' = JArr (node # nodes)"
  by (auto simp: loadYamlSafely_def agents_valid_iff [symmetric] split: sum.splits
      dest: load_body_returns)


lemma validTypes_iff:
  "set_has validTypes v \<longleftrightarrow>
     v \<in> JStr ` {''SequentialWorkflow'', ''ConcurrentWorkflow'', ''AgentRearrange'',
       ''MixtureOfAgents'', ''auto''}"
  by (cases v) (auto simp: set_has_def validTypes_def)

lemma SwarmConfig_new_rejects:
  assumes "\<not> nullish node" and "\<not> set_has validTypes (read_prop node ''swarm_type'')"
  shows "SwarmConfig_new node = Inl (Exn Error
      ''Swarm type must be one of: SequentialWorkflow, ConcurrentWorkflow, AgentRearrange, MixtureOfAgents, auto'')"
proof -
  have "''Swarm type must be one of: '' @ join '', '' validTypes =
      ''Swarm type must be one of: SequentialWorkflow, ConcurrentWorkflow, AgentRearrange, MixtureOfAgents, auto''"
    by (simp add: validTypes_def)
  with assms show ?thesis
    by (simp add: SwarmConfig_new_def get_prop_def Let_def)
qed

lemma truthy_not_nullish: "truthy v \<Longrightarrow> \<not> nullish v"
  by (cases v) simp_all

lemma build_router_filter:
  assumes "\<And>options agents. \<not> Q (NewSwarmRouter options agents)"
  shows "filter Q (snd (build_router env config agents tr)) = filter Q tr"
  using assms by (simp add: build_router_def Let_def split: sum.splits option.splits)

lemma build_router_rejects:
  assumes "truthy (read_prop config ''swarm_architecture'')"
    and "\<not> set_has validTypes (read_prop (read_prop config ''swarm_architecture'') ''swarm_type'')"
  shows "build_router env config agents tr = (Inl (Exn Error
      ''Swarm type must be one of: SequentialWorkflow, ConcurrentWorkflow, AgentRearrange, MixtureOfAgents, auto''), tr)"
  using assms SwarmConfig_new_rejects [OF truthy_not_nullish [OF assms(1)] assms(2)]
  by (simp add: build_router_def)

text \<open>
  Claim C2, as stated, fails on the document with one agent and the swarm type
  \<open>Bogus\<close>: the call fails, but the backend was instantiated and the agent was
  constructed before.
\<close>

theorem bogus_swarm_type_counterexample:
  "read_prop (read_prop doc_bogus ''swarm_architecture'') ''swarm_type'' = JStr ''Bogus'' \<and>
   isl (fst (createAgentsFromYaml example_env (call ''bogus'' JUndefined) [])) \<and>
   llm_calls (snd (createAgentsFromYaml example_env (call ''bogus'' JUndefined) [])) = 1 \<and>
   agent_calls (snd (createAgentsFromYaml example_env (call ''bogus'' JUndefined) [])) = 1"
  by code_simp

text \<open>
  Claim C2, amended: for every document whose \<^verbatim>\<open>swarm_architecture\<close> carries an
  unrecognized \<^verbatim>\<open>swarm_type\<close>, the call fails and no router is constructed; the
  swarm is validated after the agent loop, so when every agent of the document has been
  constructed (one backend per agent, in document order), the call fails with the swarm
  validation error, and the calls of the agent loop have been made.
\<close>

theorem unknown_swarm_type_fails_after_agents:
  assumes load: "loadYamlSafely env (source_default (yamlFile a) (Given ''agents.yaml''))
                   (source_default (yamlString a) Null) = Inr config"
    and nodes: "read_prop config ''agents'' = JArr nodes"
    and declared: "truthy (read_prop config ''swarm_architecture'')"
    and unknown: "read_prop (read_prop config ''swarm_architecture'') ''swarm_type'' \<notin>
       JStr ` {''SequentialWorkflow'', ''ConcurrentWorkflow'', ''AgentRearrange'',
         ''MixtureOfAgents'', ''auto''}"
  shows "isl (fst (createAgentsFromYaml env a tr)) \<and>
         filter is_NewSwarmRouter (snd (createAgentsFromYaml env a tr)) =
           filter is_NewSwarmRouter tr \<and>
         (\<forall>agents tr1. build_agents env nodes [] tr = (Inr agents, tr1) \<longrightarrow>
            createAgentsFromYaml env a tr = (Inl (Exn Error
              ''Swarm type must be one of: SequentialWorkflow, ConcurrentWorkflow, AgentRearrange, MixtureOfAgents, auto''), tr1) \<and>
            list_all2 built_from nodes agents \<and>
            llm_calls tr1 = llm_calls tr + length nodes)"
proof -
  let ?err = "Exn Error
    ''Swarm type must be one of: SequentialWorkflow, ConcurrentWorkflow, AgentRearrange, MixtureOfAgents, auto''"
  from unknown have bad: "\<not> set_has validTypes
      (read_prop (read_prop config ''swarm_architecture'') ''swarm_type'')"
    by (simp add: validTypes_iff)
  obtain r tr1 where b: "build_agents env nodes [] tr = (r, tr1)"
    by (cases "build_agents env nodes [] tr")
  have keep: "filter is_NewSwarmRouter tr1 = filter is_NewSwarmRouter tr"
    using build_agents_filter [of is_NewSwarmRouter env nodes "[]" tr] b by simp
  show ?thesis
  proof (cases r)
    case (Inl e)
    with b load nodes have "createAgentsFromYaml env a tr = (Inl e, tr1)"
      by (simp add: createAgentsFromYaml_def construct_def)
    with keep b Inl show ?thesis by simp
  next
    case (Inr agents)
    with b load nodes build_router_rejects [OF declared bad]
    have run: "createAgentsFromYaml env a tr = (Inl ?err, tr1)"
      by (simp add: createAgentsFromYaml_def construct_def)
    from build_agents_returns [of env nodes "[]" tr agents tr1] b Inr
    have "list_all2 built_from nodes agents" "llm_calls tr1 = llm_calls tr + length nodes"
      by auto
    with run keep b Inr show ?thesis by simp
  qed
qed

lemma load_bogus:
  "loadYamlSafely example_env
     (source_default (yamlFile (call ''bogus'' JUndefined)) (Given ''agents.yaml''))
     (source_default (yamlString (call ''bogus'' JUndefined)) Null) = Inr doc_bogus"
  by code_simp

text \<open>
  The theorem at the document with the agent A and the swarm type \<open>Bogus\<close>: one
  backend and one agent are constructed, then the call fails.
\<close>

theorem unknown_swarm_type_fails_after_agents_witness:
  "truthy (read_prop doc_bogus ''swarm_architecture'') \<and>
   fst (createAgentsFromYaml example_env (call ''bogus'' JUndefined) []) = Inl (Exn Error
     ''Swarm type must be one of: SequentialWorkflow, ConcurrentWorkflow, AgentRearrange, MixtureOfAgents, auto'') \<and>
   llm_calls (snd (createAgentsFromYaml example_env (call ''bogus'' JUndefined) [])) = 1 \<and>
   filter is_NewSwarmRouter (snd (createAgentsFromYaml example_env (call ''bogus'' JUndefined) [])) = []"
proof -
  have nodes: "read_prop doc_bogus ''agents'' = JArr [agent_A]"
    by (simp add: doc_bogus_def)
  have declared: "truthy (read_prop doc_bogus ''swarm_architecture'')"
    by (simp add: doc_bogus_def)
  have unknown: "read_prop (read_prop doc_bogus ''swarm_architecture'') ''swarm_type'' \<notin>
       JStr ` {''SequentialWorkflow'', ''ConcurrentWorkflow'', ''AgentRearrange'',
         ''MixtureOfAgents'', ''auto''}"
    by (simp add: doc_bogus_def)
  have "\<not> isl (fst (build_agents example_env [agent_A] [] []))"
    by code_simp
  then obtain agents tr1 where built: "build_agents example_env [agent_A] [] [] = (Inr agents, tr1)"
    by (cases "build_agents example_env [agent_A] [] []";
        cases "fst (build_agents example_env [agent_A] [] [])") auto
  note main = unknown_swarm_type_fails_after_agents [OF load_bogus nodes declared unknown, of "[]"]
  from main have no_router: "filter is_NewSwarmRouter
      (snd (createAgentsFromYaml example_env (call ''bogus'' JUndefined) [])) = []"
    by simp
  from main [THEN conjunct2, THEN conjunct2, rule_format, OF built]
  have "fst (createAgentsFromYaml example_env (call ''bogus'' JUndefined) []) = Inl (Exn Error
     ''Swarm type must be one of: SequentialWorkflow, ConcurrentWorkflow, AgentRearrange, MixtureOfAgents, auto'')"
    and "llm_calls (snd (createAgentsFromYaml example_env (call ''bogus'' JUndefined) [])) = 1"
    by simp_all
  with declared no_router show ?thesis by simp
qed


lemma build_router_llm_calls:
  "llm_calls (snd (build_router env config agents tr)) = llm_calls tr"
  unfolding llm_calls_def by (simp add: build_router_filter)

lemma construct_llm_calls:
  assumes "construct env a tr = (Inr (config, agents, swarmRouter), tr')"
  shows "agents \<noteq> [] \<and> llm_calls tr' = llm_calls tr + length agents \<and>
         (\<exists>nodes. read_prop config ''agents'' = JArr nodes \<and> list_all2 built_from nodes agents)"
proof -
  from construct_returns [OF assms] obtain nodes tr1 where
    load: "loadYamlSafely env (source_default (yamlFile a) (Given ''agents.yaml''))
             (source_default (yamlString a) Null) = Inr config"
    and nodes: "read_prop config ''agents'' = JArr nodes"
    and built: "build_agents env nodes [] tr = (Inr agents, tr1)"
    and router: "build_router env config agents tr1 = (Inr swarmRouter, tr')"
    by blast
  from loadYamlSafely_returns [OF load] nodes have ne: "nodes \<noteq> []" by auto
  from build_agents_returns [OF built]
  have all: "list_all2 built_from nodes agents" and calls: "llm_calls tr1 = llm_calls tr + length nodes"
    by auto
  from all have len: "length agents = length nodes" by (simp add: list_all2_lengthD)
  from build_router_llm_calls [of env config agents tr1] router
  have "llm_calls tr' = llm_calls tr1" by simp
  with ne len calls all nodes show ?thesis by auto
qed

text \<open>
  Claim C3, as stated, fails on the document with two agents and a swarm, called with
  the return type \<open>nonsense\<close>: the call fails with the error of the return type, but
  two backends, two agents and the router were constructed before.
\<close>

theorem invalid_returnType_counterexample:
  "fst (createAgentsFromYaml example_env (call ''swarm'' (JStr ''nonsense'')) []) = Inl (Exn Error
     ''Invalid return_type. Must be one of: auto, swarm, agents, both, tasks, run_swarm'') \<and>
   llm_calls (snd (createAgentsFromYaml example_env (call ''swarm'' (JStr ''nonsense'')) [])) = 2 \<and>
   agent_calls (snd (createAgentsFromYaml example_env (call ''swarm'' (JStr ''nonsense'')) [])) = 2 \<and>
   length (filter is_NewSwarmRouter
     (snd (createAgentsFromYaml example_env (call ''swarm'' (JStr ''nonsense'')) []))) = 1"
  by code_simp

text \<open>
  Claim C3, amended: for every call whose \<^verbatim>\<open>returnType\<close> is given and is not one of
  \<open>auto\<close>, \<open>swarm\<close>, \<open>agents\<close>, \<open>both\<close>, \<open>tasks\<close>, \<open>run_swarm\<close>, the call
  fails; the return type is checked after the construction, so when the document loads
  and the agents and the router are constructed, the call fails with the error of the
  return type, and the construction work has been done (one backend per agent, at
  least one agent).
\<close>

theorem invalid_returnType_fails_after_construction:
  assumes given: "returnType a \<noteq> JUndefined"
    and invalid: "returnType a \<notin>
       JStr ` {''auto'', ''swarm'', ''agents'', ''both'', ''tasks'', ''run_swarm''}"
  shows "isl (fst (createAgentsFromYaml env a tr)) \<and>
         (\<forall>config agents swarmRouter tr'.
            construct env a tr = (Inr (config, agents, swarmRouter), tr') \<longrightarrow>
              createAgentsFromYaml env a tr = (Inl (Exn Error
                ''Invalid return_type. Must be one of: auto, swarm, agents, both, tasks, run_swarm''), tr') \<and>
              agents \<noteq> [] \<and> llm_calls tr' = llm_calls tr + length agents)"
proof -
  from invalid have bad: "\<not> set_has validReturnTypes (returnType a)"
    by (simp add: validReturnTypes_iff)
  have msg: "''Invalid return_type. Must be one of: '' @ join '', '' validReturnTypes =
      ''Invalid return_type. Must be one of: auto, swarm, agents, both, tasks, run_swarm''"
    by (simp add: validReturnTypes_def)
  have sel: "select_result env (returnType a) config agents swarmRouter tr' =
      (Inl (Exn Error
        ''Invalid return_type. Must be one of: auto, swarm, agents, both, tasks, run_swarm''), tr')"
    for config agents swarmRouter tr'
    using bad unfolding select_result_def msg by simp
  obtain r tr1 where c: "construct env a tr = (r, tr1)"
    by (cases "construct env a tr")
  show ?thesis
  proof (cases r)
    case (Inl e)
    with c show ?thesis by (simp add: createAgentsFromYaml_def)
  next
    case (Inr triple)
    obtain config agents swarmRouter where t: "triple = (config, agents, swarmRouter)"
      by (cases triple)
    from c Inr t have c': "construct env a tr = (Inr (config, agents, swarmRouter), tr1)" by simp
    with given sel have "createAgentsFromYaml env a tr = (Inl (Exn Error
        ''Invalid return_type. Must be one of: auto, swarm, agents, both, tasks, run_swarm''), tr1)"
      by (simp add: createAgentsFromYaml_def)
    with c' construct_llm_calls [OF c'] show ?thesis by simp
  qed
qed

text \<open>
  The theorem at the document with one agent and the return type \<open>nonsense\<close>: the
  backend and the agent are constructed, then the call fails.
\<close>

theorem invalid_returnType_fails_after_construction_witness:
  "JStr ''nonsense'' \<noteq> JUndefined \<and>
   fst (createAgentsFromYaml example_env (call ''single'' (JStr ''nonsense'')) []) = Inl (Exn Error
     ''Invalid return_type. Must be one of: auto, swarm, agents, both, tasks, run_swarm'') \<and>
   llm_calls (snd (createAgentsFromYaml example_env (call ''single'' (JStr ''nonsense'')) [])) = 1"
proof -
  let ?a = "call ''single'' (JStr ''nonsense'')"
  have given: "returnType ?a \<noteq> JUndefined"
    by (simp add: call_def)
  have invalid: "returnType ?a \<notin>
       JStr ` {''auto'', ''swarm'', ''agents'', ''both'', ''tasks'', ''run_swarm''}"
    by (simp add: call_def)
  have "\<not> isl (fst (construct example_env ?a []))"
    by code_simp
  then obtain config agents swarmRouter tr' where
    c: "construct example_env ?a [] = (Inr (config, agents, swarmRouter), tr')"
    by (cases "construct example_env ?a []"; cases "fst (construct example_env ?a [])") auto
  have one: "llm_calls (snd (construct example_env ?a [])) = 1"
    by code_simp
  note main = invalid_returnType_fails_after_construction [OF given invalid, of example_env "[]"]
  from main [THEN conjunct2, rule_format, OF c] c one
  show ?thesis by simp
qed

text \<open>
  Claim C5, as stated, fails when both sources are supplied: the string is parsed, the
  file path is ignored, and loading succeeds.
\<close>

theorem both_sources_counterexample:
  "loadYamlSafely example_env (Given ''agents.yaml'') (Given ''single'') = Inr doc_single"
  by code_simp

text \<open>
  Claim C5, amended: \<open>loadYamlSafely\<close> fails with the source error (an \<^verbatim>\<open>Error\<close>
  whose message says that either source must be provided) whenever neither
  \<^verbatim>\<open>yamlFile\<close> nor \<^verbatim>\<open>yamlString\<close> is supplied (each left out, null or the empty
  string). When a non-empty \<^verbatim>\<open>yamlString\<close> is supplied, loading proceeds from it and
  \<^verbatim>\<open>yamlFile\<close> is ignored, so supplying both is not an error: the result is that of
  the string alone, and it is decided by the parse of the string. A parse error is
  wrapped; a parsed document with a non-empty \<^verbatim>\<open>agents\<close> array is returned; a
  parsed value that is not null or undefined and has no such array gives the error that
  at least one agent is required; a parsed null or undefined fails.
\<close>

theorem loadYamlSafely_source:
  "(f \<in> {Omitted, Null, Given []} \<and> s \<in> {Omitted, Null, Given []} \<longrightarrow>
      loadYamlSafely env f s = Inl (Exn Error
        ''Error validating configuration: Either yamlFile or yamlString must be provided'')) \<and>
   (text \<noteq> [] \<longrightarrow>
      loadYamlSafely env f (Given text) = loadYamlSafely env Omitted (Given text) \<and>
      (\<forall>e. yaml_parse env text = Inl e \<longrightarrow>
         loadYamlSafely env f (Given text) =
           Inl (Exn Error (''Error validating configuration: '' @ message e))) \<and>
      (\<forall>configDict node nodes.
         yaml_parse env text = Inr configDict \<and>
         read_prop configDict ''agents'' = JArr (node # nodes) \<longrightarrow>
           loadYamlSafely env f (Given text) = Inr configDict) \<and>
      (\<forall>configDict.
         yaml_parse env text = Inr configDict \<and> \<not> nullish configDict \<and>
         (\<forall>node nodes. read_prop configDict ''agents'' \<noteq> JArr (node # nodes)) \<longrightarrow>
           loadYamlSafely env f (Given text) = Inl (Exn Error
             ''Error validating configuration: Invalid YAML: Must contain at least one agent configuration.'')) \<and>
      (\<forall>configDict.
         yaml_parse env text = Inr configDict \<and> nullish configDict \<longrightarrow>
           isl (loadYamlSafely env f (Given text))))"
proof (intro conjI impI allI)
  assume "f \<in> {Omitted, Null, Given []} \<and> s \<in> {Omitted, Null, Given []}"
  then show "loadYamlSafely env f s = Inl (Exn Error
        ''Error validating configuration: Either yamlFile or yamlString must be provided'')"
    by (auto simp: loadYamlSafely_def load_body_def)
next
  assume "text \<noteq> []"
  then show "loadYamlSafely env f (Given text) = loadYamlSafely env Omitted (Given text)"
    by (simp add: loadYamlSafely_def load_body_def)
next
  fix e
  assume "text \<noteq> []" and "yaml_parse env text = Inl e"
  then show "loadYamlSafely env f (Given text) =
      Inl (Exn Error (''Error validating configuration: '' @ message e))"
    by (simp add: loadYamlSafely_def load_body_def)
next
  fix configDict node nodes
  assume t: "text \<noteq> []"
    and p: "yaml_parse env text = Inr configDict \<and>
         read_prop configDict ''agents'' = JArr (node # nodes)"
  then have "\<not> nullish configDict"
    by (cases configDict) auto
  moreover from p have "\<not> agents_invalid (read_prop configDict ''agents'')"
    by (simp add: agents_valid_iff)
  ultimately show "loadYamlSafely env f (Given text) = Inr configDict"
    using t p by (simp add: loadYamlSafely_def load_body_def get_prop_def)
next
  fix configDict
  assume t: "text \<noteq> []"
    and p: "yaml_parse env text = Inr configDict \<and> \<not> nullish configDict \<and>
         (\<forall>node nodes. read_prop configDict ''agents'' \<noteq> JArr (node # nodes))"
  then have "agents_invalid (read_prop configDict ''agents'')"
    using agents_valid_iff [of "read_prop configDict ''agents''"] by blast
  with t p show "loadYamlSafely env f (Given text) = Inl (Exn Error
      ''Error validating configuration: Invalid YAML: Must contain at least one agent configuration.'')"
    by (simp add: loadYamlSafely_def load_body_def get_prop_def)
next
  fix configDict
  assume "text \<noteq> []" and "yaml_parse env text = Inr configDict \<and> nullish configDict"
  then show "isl (loadYamlSafely env f (Given text))"
    by (simp add: loadYamlSafely_def load_body_def get_prop_def)
qed

text \<open>
  The theorem with no source at all; with the path \<open>agents.yaml\<close> beside a document
  text, which is loaded; and with the path beside a text the parser refuses.
\<close>

theorem loadYamlSafely_source_witness:
  "loadYamlSafely example_env Omitted Null = Inl (Exn Error
     ''Error validating configuration: Either yamlFile or yamlString must be provided'') \<and>
   yaml_parse example_env ''single'' = Inr doc_single \<and>
   loadYamlSafely example_env (Given ''agents.yaml'') (Given ''single'') = Inr doc_single \<and>
   loadYamlSafely example_env Omitted (Given ''single'') = Inr doc_single \<and>
   loadYamlSafely example_env (Given ''agents.yaml'') (Given ''garbage'') =
     Inl (Exn Error ''Error validating configuration: unexpected text'')"
proof -
  have parse: "yaml_parse example_env ''single'' = Inr doc_single \<and>
      read_prop doc_single ''agents'' = JArr (agent_A # [])"
    by (simp add: example_env_def doc_single_def)
  have bad: "yaml_parse example_env ''garbage'' =
      Inl (Exn (OtherError ''YAMLParseError'') ''unexpected text'')"
    by (simp add: example_env_def)
  note none = loadYamlSafely_source [of Omitted Null example_env "''single''", THEN conjunct1]
  note both = loadYamlSafely_source [of "Given ''agents.yaml''" Null example_env "''single''",
      THEN conjunct2]
  note err = loadYamlSafely_source [of "Given ''agents.yaml''" Null example_env "''garbage''",
      THEN conjunct2]
  have 1: "loadYamlSafely example_env Omitted Null = Inl (Exn Error
     ''Error validating configuration: Either yamlFile or yamlString must be provided'')"
    using none by simp
  have ne: "''single'' \<noteq> []" "''garbage'' \<noteq> []" by simp_all
  note b = both [rule_format, OF ne(1)]
  note same = b [THEN conjunct1]
  note 2 = b [THEN conjunct2, THEN conjunct2, THEN conjunct1, rule_format, OF parse]
  from err [rule_format, OF ne(2), THEN conjunct2, THEN conjunct1, rule_format, OF bad]
  have 3: "loadYamlSafely example_env (Given ''agents.yaml'') (Given ''garbage'') =
     Inl (Exn Error ''Error validating configuration: unexpected text'')"
    by simp
  from same 2 have 4: "loadYamlSafely example_env Omitted (Given ''single'') = Inr doc_single"
    by simp
  from 1 2 3 4 parse [THEN conjunct1] show ?thesis by simp
qed

lemma build_agents_fails_at:
  assumes pre: "build_agents env pre [] tr = (Inr agents, tr1)"
    and node: "\<not> nullish node"
    and backend: "LiteLLM_ctor env (llm_calls tr1)
                    (js_or (read_prop node ''model_name'') (JStr ''gpt-4o'')) = None"
    and fails: "createAgentWithRetry env node
                  (LiteLLM (llm_calls tr1) (js_or (read_prop node ''model_name'') (JStr ''gpt-4o'')))
                  (tr1 @ [NewLiteLLM (js_or (read_prop node ''model_name'') (JStr ''gpt-4o''))]) =
                (Inl e, tr2)"
  shows "build_agents env (pre @ node # post) [] tr = (Inl e, tr2)"
proof -
  have "build_agents env (node # post) agents tr1 = (Inl e, tr2)"
    using node backend fails by (simp add: get_prop_def Let_def)
  with pre show ?thesis by (simp add: build_agents_append)
qed

text \<open>
  Claim C6: when the agents before some node of the document have been constructed and
  the construction of that node's agent fails (\<open>createAgentWithRetry\<close> throws, after
  its retries or at once), the whole call fails with that error: the result is an error,
  never a list of the agents built so far, a router or any other value.
\<close>

theorem agent_failure_fails_call:
  assumes load: "loadYamlSafely env (source_default (yamlFile a) (Given ''agents.yaml''))
                   (source_default (yamlString a) Null) = Inr config"
    and nodes: "read_prop config ''agents'' = JArr (pre @ node # post)"
    and pre: "build_agents env pre [] tr = (Inr agents, tr1)"
    and node: "\<not> nullish node"
    and backend: "LiteLLM_ctor env (llm_calls tr1)
                    (js_or (read_prop node ''model_name'') (JStr ''gpt-4o'')) = None"
    and fails: "createAgentWithRetry env node
                  (LiteLLM (llm_calls tr1) (js_or (read_prop node ''model_name'') (JStr ''gpt-4o'')))
                  (tr1 @ [NewLiteLLM (js_or (read_prop node ''model_name'') (JStr ''gpt-4o''))]) =
                (Inl e, tr2)"
  shows "createAgentsFromYaml env a tr = (Inl e, tr2)"
  using load nodes build_agents_fails_at [OF pre node backend fails, of post]
  by (simp add: createAgentsFromYaml_def construct_def)

text \<open>
  The theorem at two runs. The document with the agent A, when every call of
  \<^verbatim>\<open>new Agent\<close> fails with a connection error: the retries are used up and the call
  fails. The document with the agent A and an agent without a prompt: A is built, the
  second agent fails validation, and the call fails; A is not returned.
\<close>

theorem agent_failure_fails_call_witness:
  "createAgentsFromYaml (flaky_env 3) (call ''single'' (JStr ''agents'')) [] =
     (Inl (AgentConstructionError (JStr ''A'') (Exn ConnectionError ''connection reset'')),
      snd (createAgentWithRetry (flaky_env 3) agent_A (LiteLLM 0 (JStr ''gpt-4o''))
             [NewLiteLLM (JStr ''gpt-4o'')])) \<and>
   fst (createAgentsFromYaml example_env (call ''broken'' (JStr ''agents'')) []) =
     Inl (Exn Error ''System prompt must be a non-empty string'')"
proof -
  let ?a = "call ''single'' (JStr ''agents'')"
  let ?mn = "JStr ''gpt-4o''"
  have load: "loadYamlSafely (flaky_env 3) (source_default (yamlFile ?a) (Given ''agents.yaml''))
                (source_default (yamlString ?a) Null) = Inr doc_single"
    by code_simp
  have nodes: "read_prop doc_single ''agents'' = JArr ([] @ agent_A # [])"
    by (simp add: doc_single_def)
  have pre: "build_agents (flaky_env 3) [] [] [] = (Inr [], [])"
    by simp
  have node: "\<not> nullish agent_A"
    by (simp add: agent_A_def)
  have mn: "js_or (read_prop agent_A ''model_name'') (JStr ''gpt-4o'') = ?mn"
    by (simp add: agent_A_def js_or_def)
  have backend: "LiteLLM_ctor (flaky_env 3) (llm_calls [])
                   (js_or (read_prop agent_A ''model_name'') (JStr ''gpt-4o'')) = None"
    by (simp add: flaky_env_def example_env_def)
  have "fst (createAgentWithRetry (flaky_env 3) agent_A (LiteLLM 0 ?mn) [NewLiteLLM ?mn]) =
          Inl (AgentConstructionError (JStr ''A'') (Exn ConnectionError ''connection reset''))"
    by code_simp
  then have fails: "createAgentWithRetry (flaky_env 3) agent_A
                  (LiteLLM (llm_calls []) (js_or (read_prop agent_A ''model_name'') (JStr ''gpt-4o'')))
                  ([] @ [NewLiteLLM (js_or (read_prop agent_A ''model_name'') (JStr ''gpt-4o''))]) =
                (Inl (AgentConstructionError (JStr ''A'') (Exn ConnectionError ''connection reset'')),
                 snd (createAgentWithRetry (flaky_env 3) agent_A (LiteLLM 0 ?mn) [NewLiteLLM ?mn]))"
    by (simp add: mn prod_eq_iff)
  note first = agent_failure_fails_call [OF load nodes pre node backend fails]
  let ?b = "call ''broken'' (JStr ''agents'')"
  let ?A = "Agent 0 (agent_options (projr (AgentConfig_new agent_A))) (LiteLLM 0 ?mn)"
  let ?tr1 = "[NewLiteLLM ?mn, NewAgent (agent_options (projr (AgentConfig_new agent_A))) (LiteLLM 0 ?mn)]"
  have load': "loadYamlSafely example_env (source_default (yamlFile ?b) (Given ''agents.yaml''))
                (source_default (yamlString ?b) Null) = Inr doc_broken"
    by code_simp
  have nodes': "read_prop doc_broken ''agents'' = JArr ([agent_A] @ agent_no_prompt # [])"
    by (simp add: doc_broken_def)
  have pre': "build_agents example_env [agent_A] [] [] = (Inr [?A], ?tr1)"
    by code_simp
  have node': "\<not> nullish agent_no_prompt"
    by (simp add: agent_no_prompt_def)
  have backend': "LiteLLM_ctor example_env (llm_calls ?tr1)
                   (js_or (read_prop agent_no_prompt ''model_name'') (JStr ''gpt-4o'')) = None"
    by (simp add: example_env_def)
  have fails': "createAgentWithRetry example_env agent_no_prompt
                  (LiteLLM (llm_calls ?tr1)
                     (js_or (read_prop agent_no_prompt ''model_name'') (JStr ''gpt-4o'')))
                  (?tr1 @ [NewLiteLLM (js_or (read_prop agent_no_prompt ''model_name'') (JStr ''gpt-4o''))]) =
                (Inl (Exn Error ''System prompt must be a non-empty string''),
                 ?tr1 @ [NewLiteLLM (js_or (read_prop agent_no_prompt ''model_name'') (JStr ''gpt-4o''))])"
    by code_simp
  note second = agent_failure_fails_call [OF load' nodes' pre' node' backend' fails']
  from first second show ?thesis by simp
qed

text \<open>
  Claim C9. Let the document load and the agents (and the router, if one is declared)
  be constructed. Then: with no \<^verbatim>\<open>swarm_architecture\<close> key, the return types
  \<open>swarm\<close> and \<open>run_swarm\<close> fail with the error that the SwarmRouter was not
  created; and the return type \<open>agents\<close> returns the single instance itself when the
  document declares exactly one agent, and otherwise the array of all instances, where
  the instances stand in the order of the nodes they were built from.
\<close>

theorem return_type_contract:
  assumes "construct env a tr = (Inr (config, agents, swarmRouter), tr')"
  shows "(read_prop config ''swarm_architecture'' = JUndefined \<and>
          returnType a \<in> {JStr ''swarm'', JStr ''run_swarm''} \<longrightarrow>
            createAgentsFromYaml env a tr =
              (Inl (Exn Error ''Cannot run swarm: SwarmRouter not created.''), tr')) \<and>
         (returnType a = JStr ''agents'' \<longrightarrow>
            (\<exists>nodes. read_prop config ''agents'' = JArr nodes \<and>
                     list_all2 built_from nodes agents) \<and>
            createAgentsFromYaml env a tr =
              (Inr (case agents of [single] \<Rightarrow> RAgent single | _ \<Rightarrow> RArray (map RAgent agents)),
               tr'))"
proof (intro conjI impI)
  assume h: "read_prop config ''swarm_architecture'' = JUndefined \<and>
          returnType a \<in> {JStr ''swarm'', JStr ''run_swarm''}"
  from construct_returns [OF assms] obtain tr1 where
    "build_router env config agents tr1 = (Inr swarmRouter, tr')"
    by blast
  with h have "swarmRouter = None"
    by (simp add: build_router_def)
  with h assms show "createAgentsFromYaml env a tr =
      (Inl (Exn Error ''Cannot run swarm: SwarmRouter not created.''), tr')"
    by (auto simp: createAgentsFromYaml_def select_result_def validReturnTypes_iff)
next
  assume "returnType a = JStr ''agents''"
  moreover have "single_or_all agents =
      (case agents of [single] \<Rightarrow> RAgent single | _ \<Rightarrow> RArray (map RAgent agents))"
    by (cases agents rule: remdups_adj.cases) (simp_all add: single_or_all_def)
  ultimately show "createAgentsFromYaml env a tr =
      (Inr (case agents of [single] \<Rightarrow> RAgent single | _ \<Rightarrow> RArray (map RAgent agents)), tr')"
    using assms
    by (simp add: createAgentsFromYaml_def select_result_def validReturnTypes_iff)
next
  show "\<exists>nodes. read_prop config ''agents'' = JArr nodes \<and> list_all2 built_from nodes agents"
    using construct_llm_calls [OF assms] by blast
qed

text \<open>
  The theorem at three runs: \<open>swarm\<close> on the document with two agents and no swarm;
  \<open>agents\<close> on the document with one agent; \<open>agents\<close> on the document with two.
\<close>

theorem return_type_contract_witness:
  "fst (createAgentsFromYaml example_env (call ''pair'' (JStr ''swarm'')) []) =
     Inl (Exn Error ''Cannot run swarm: SwarmRouter not created.'') \<and>
   fst (createAgentsFromYaml example_env (call ''single'' (JStr ''agents'')) []) =
     Inr (RAgent (Agent 0 (agent_options (projr (AgentConfig_new agent_A)))
                    (LiteLLM 0 (JStr ''gpt-4o'')))) \<and>
   fst (createAgentsFromYaml example_env (call ''pair'' (JStr ''agents'')) []) =
     Inr (RArray
       [RAgent (Agent 0 (agent_options (projr (AgentConfig_new agent_A))) (LiteLLM 0 (JStr ''gpt-4o''))),
        RAgent (Agent 1 (agent_options (projr (AgentConfig_new agent_B))) (LiteLLM 1 (JStr ''gpt-4'')))])"
proof -
  let ?A = "Agent 0 (agent_options (projr (AgentConfig_new agent_A))) (LiteLLM 0 (JStr ''gpt-4o''))"
  let ?B = "Agent 1 (agent_options (projr (AgentConfig_new agent_B))) (LiteLLM 1 (JStr ''gpt-4''))"
  have c1: "construct example_env (call ''pair'' (JStr ''swarm'')) [] =
      (Inr (doc_pair, [?A, ?B], None), snd (construct example_env (call ''pair'' (JStr ''swarm'')) []))"
    unfolding prod_eq_iff fst_conv snd_conv by (rule conjI, code_simp, rule refl)
  have c2: "construct example_env (call ''single'' (JStr ''agents'')) [] =
      (Inr (doc_single, [?A], None), snd (construct example_env (call ''single'' (JStr ''agents'')) []))"
    unfolding prod_eq_iff fst_conv snd_conv by (rule conjI, code_simp, rule refl)
  have c3: "construct example_env (call ''pair'' (JStr ''agents'')) [] =
      (Inr (doc_pair, [?A, ?B], None), snd (construct example_env (call ''pair'' (JStr ''agents'')) []))"
    unfolding prod_eq_iff fst_conv snd_conv by (rule conjI, code_simp, rule refl)
  have undeclared: "read_prop doc_pair ''swarm_architecture'' = JUndefined"
    by (simp add: doc_pair_def)
  from return_type_contract [OF c1] return_type_contract [OF c2] return_type_contract [OF c3]
    undeclared
  show ?thesis by (simp add: call_def)
qed

text \<open>
  Claim C10: with the return type \<open>tasks\<close> the call returns the empty array. When
  the document loads and the agents (and the router, if one is declared) are
  constructed, the result is \<^verbatim>\<open>[]\<close>; and whatever the document, no other value is
  ever returned for this return type.
\<close>

theorem tasks_returns_empty_array:
  assumes "returnType a = JStr ''tasks''"
  shows "(\<forall>config agents swarmRouter tr'.
            construct env a tr = (Inr (config, agents, swarmRouter), tr') \<longrightarrow>
              createAgentsFromYaml env a tr = (Inr (RArray []), tr')) \<and>
         (\<forall>r. fst (createAgentsFromYaml env a tr) = Inr r \<longrightarrow> r = RArray [])"
proof -
  have sel: "select_result env (JStr ''tasks'') config agents swarmRouter tr' = (Inr (RArray []), tr')"
    for config agents swarmRouter tr'
    by (simp add: select_result_def validReturnTypes_iff)
  obtain r tr1 where c: "construct env a tr = (r, tr1)"
    by (cases "construct env a tr")
  show ?thesis
  proof (cases r)
    case (Inl e)
    with c show ?thesis by (simp add: createAgentsFromYaml_def)
  next
    case (Inr triple)
    with c assms sel show ?thesis
      by (cases triple) (simp add: createAgentsFromYaml_def)
  qed
qed

text \<open>
  The theorem at the document with two agents and a swarm: the agents and the router
  are constructed, and the call returns the empty array.
\<close>

theorem tasks_returns_empty_array_witness:
  "returnType (call ''swarm'' (JStr ''tasks'')) = JStr ''tasks'' \<and>
   \<not> isl (fst (construct example_env (call ''swarm'' (JStr ''tasks'')) [])) \<and>
   fst (createAgentsFromYaml example_env (call ''swarm'' (JStr ''tasks'')) []) = Inr (RArray [])"
proof -
  let ?a = "call ''swarm'' (JStr ''tasks'')"
  have rt: "returnType ?a = JStr ''tasks''"
    by (simp add: call_def)
  have ok: "\<not> isl (fst (construct example_env ?a []))"
    by code_simp
  then obtain config agents swarmRouter tr' where
    c: "construct example_env ?a [] = (Inr (config, agents, swarmRouter), tr')"
    by (cases "construct example_env ?a []"; cases "fst (construct example_env ?a [])") auto
  from tasks_returns_empty_array [OF rt, of example_env "[]", THEN conjunct1, rule_format, OF c]
    rt ok
  show ?thesis by simp
qed

end
